theory Spec2Isabelle
  imports Complex_Main "HOL-Library.Word" "HOL-Library.AList"
begin

section \<open>JavaScript values\<close>

text \<open>
  Values that reach \<open>SellingPartner.js\<close> from parsed response bodies. Numbers are
  restricted to integers; an object is an association list read with \<open>map_of\<close>.
  Strings are lists of 8-bit characters.
\<close>

datatype jsval =
    JUndefined
  | JNull
  | JBool bool
  | JNum int
  | JStr string
  | JArr "jsval list"
  | JObj "(string \<times> jsval) list"

type_synonym bytes = "8 word list"

text \<open>What \<open>if (v)\<close>, \<open>!v\<close>, \<open>v && ...\<close> and \<open>v || ...\<close> test.\<close>

fun truthy :: "jsval \<Rightarrow> bool" where
  "truthy JUndefined = False"
| "truthy JNull = False"
| "truthy (JBool b) = b"
| "truthy (JNum n) = (n \<noteq> 0)"
| "truthy (JStr s) = (s \<noteq> [])"
| "truthy (JArr xs) = True"
| "truthy (JObj ps) = True"

text \<open>An optional string field (\<open>None\<close> is \<open>undefined\<close>): the empty string is falsy.\<close>

fun truthy_str :: "string option \<Rightarrow> bool" where
  "truthy_str None = False"
| "truthy_str (Some s) = (s \<noteq> [])"

fun str_or_undefined :: "string option \<Rightarrow> string" where
  "str_or_undefined None = ''undefined''"
| "str_or_undefined (Some s) = s"

fun opt_to_js :: "string option \<Rightarrow> jsval" where
  "opt_to_js None = JUndefined"
| "opt_to_js (Some s) = JStr s"

text \<open>
  Errors of a run: the repository's \<open>CustomError\<close> carrying the object it was built
  from, the \<open>TypeError\<close> of a property read on \<open>undefined\<close> or \<open>null\<close>, and an error
  raised by a library or the transport.
\<close>

datatype error =
    CustomError jsval
  | TypeError
  | LibraryError string

type_synonym 'a result = "error + 'a"

definition custom_error :: "string \<Rightarrow> jsval \<Rightarrow> error" where
  "custom_error c m = CustomError (JObj [(''code'', JStr c), (''message'', m)])"

subsection \<open>Decimal digits of an index\<close>

definition digit_char :: "nat \<Rightarrow> char" where
  "digit_char d = ''0123456789'' ! d"

function string_of_nat :: "nat \<Rightarrow> string" where
  "string_of_nat n =
     (if n < 10 then [digit_char n]
      else string_of_nat (n div 10) @ [digit_char (n mod 10)])"
  by pat_completeness auto
termination
  by (relation "measure (\<lambda>n. n)") auto

declare string_of_nat.simps [simp del]

definition string_of_int :: "int \<Rightarrow> string" where
  "string_of_int i = (if i < 0 then CHR ''-'' # string_of_nat (nat (- i)) else string_of_nat (nat i))"

fun index_of :: "string \<Rightarrow> nat \<Rightarrow> nat \<Rightarrow> nat option" where
  "index_of k i 0 = None"
| "index_of k i (Suc n) = (if string_of_nat i = k then Some i else index_of k (Suc i) n)"

subsection \<open>Property reads\<close>

text \<open>
  \<open>v.k\<close> and \<open>v[0]\<close>: own properties only, which is exact for the property names this
  file reads (none of them is inherited from a prototype). A read on \<open>undefined\<close> or
  \<open>null\<close> throws.
\<close>

fun get_prop :: "jsval \<Rightarrow> string \<Rightarrow> jsval result" where
  "get_prop JUndefined k = Inl TypeError"
| "get_prop JNull k = Inl TypeError"
| "get_prop (JObj ps) k = Inr (case map_of ps k of None \<Rightarrow> JUndefined | Some v \<Rightarrow> v)"
| "get_prop (JArr xs) k =
     Inr (case index_of k 0 (length xs) of None \<Rightarrow> JUndefined | Some i \<Rightarrow> xs ! i)"
| "get_prop (JStr s) k =
     Inr (case index_of k 0 (length s) of None \<Rightarrow> JUndefined | Some i \<Rightarrow> JStr [s ! i])"
| "get_prop (JBool b) k = Inr JUndefined"
| "get_prop (JNum n) k = Inr JUndefined"

text \<open>
  The own enumerable properties that \<open>Object.assign\<close> copies from a source. Of an
  association list, the first binding of a key is the property.
\<close>

fun own_props :: "jsval \<Rightarrow> (string \<times> jsval) list" where
  "own_props (JObj ps) = AList.clearjunk ps"
| "own_props (JArr xs) = map (\<lambda>i. (string_of_nat i, xs ! i)) [0..<length xs]"
| "own_props (JStr s) = map (\<lambda>i. (string_of_nat i, JStr [s ! i])) [0..<length s]"
| "own_props v = []"

text \<open>
  The order of the own properties of an object: the keys that are array indices (the
  canonical decimal strings below \<open>2^32 - 1\<close>) in ascending order, then the other keys
  in the order of their creation.
\<close>

definition digit_value :: "char \<Rightarrow> nat option" where
  "digit_value c = map_of (zip ''0123456789'' [0, 1, 2, 3, 4, 5, 6, 7, 8, 9]) c"

fun digits_value :: "nat \<Rightarrow> string \<Rightarrow> nat option" where
  "digits_value acc [] = Some acc"
| "digits_value acc (c # cs) =
     (case digit_value c of None \<Rightarrow> None | Some d \<Rightarrow> digits_value (acc * 10 + d) cs)"

definition array_index :: "string \<Rightarrow> nat option" where
  "array_index k =
     (if k = [] \<or> (take 1 k = ''0'' \<and> k \<noteq> ''0'') then None
      else case digits_value 0 k of
             None \<Rightarrow> None
           | Some n \<Rightarrow> if n < 4294967295 then Some n else None)"

definition property_order :: "(string \<times> jsval) list \<Rightarrow> (string \<times> jsval) list" where
  "property_order ps =
     map snd (sort_key fst
                (List.map_filter (\<lambda>(k, v). map_option (\<lambda>n. (n, (k, v))) (array_index k)) ps))
     @ filter (\<lambda>(k, v). array_index k = None) ps"

text \<open>
  \<open>target[k] = v\<close> on a plain object: an own property takes the new value and keeps its
  place, a new property is created last. The key \<open>__proto__\<close>, when it is not an own
  property, is the accessor of \<open>Object.prototype\<close>: no property is created.
\<close>

definition set_prop :: "string \<Rightarrow> jsval \<Rightarrow> (string \<times> jsval) list \<Rightarrow> (string \<times> jsval) list" where
  "set_prop k v ps =
     (if map_of ps k \<noteq> None then AList.update k v ps
      else if k = ''__proto__'' then ps
      else ps @ [(k, v)])"

text \<open>
  \<open>Object.assign(target, source)\<close> on a plain-object target sets each property of the
  source on the target, in the order of the source's properties.
\<close>

definition assign_props :: "(string \<times> jsval) list \<Rightarrow> (string \<times> jsval) list \<Rightarrow> (string \<times> jsval) list" where
  "assign_props target src =
     property_order (fold (\<lambda>(k, v). set_prop k v) (property_order src) target)"

text \<open>
  The accessor \<open>__proto__\<close> given an object or \<open>null\<close> replaces the prototype of the
  target; given anything else it does nothing.
\<close>

fun object_or_null :: "jsval \<Rightarrow> bool" where
  "object_or_null JNull = True"
| "object_or_null (JArr xs) = True"
| "object_or_null (JObj ps) = True"
| "object_or_null v = False"

definition replaces_prototype :: "(string \<times> jsval) list \<Rightarrow> (string \<times> jsval) list \<Rightarrow> bool" where
  "replaces_prototype target src =
     (map_of target ''__proto__'' = None
      \<and> list_ex (\<lambda>(k, v). k = ''__proto__'' \<and> object_or_null v) src)"

text \<open>
  What a call returns: a value, or the result of \<open>Object.assign\<close> where a value cannot
  hold it, kept as the pair of its arguments: the target is not a plain object (an array
  or a boxed primitive), or the assignment replaces the prototype of the target.
\<close>

datatype retval = Val jsval | Assigned jsval jsval

fun Object_assign :: "jsval \<Rightarrow> jsval \<Rightarrow> retval" where
  "Object_assign (JObj t) s =
     (if replaces_prototype t (own_props s) then Assigned (JObj t) s
      else Val (JObj (assign_props t (own_props s))))"
| "Object_assign t s = Assigned t s"

subsection \<open>String conversion and the two regular expressions\<close>

fun join_with :: "string \<Rightarrow> string list \<Rightarrow> string" where
  "join_with sep [] = []"
| "join_with sep [x] = x"
| "join_with sep (x # y # ys) = x @ sep @ join_with sep (y # ys)"

text \<open>\<open>String(v)\<close>, which \<open>RegExp.prototype.test\<close> applies to its argument.\<close>

fun to_string :: "jsval \<Rightarrow> string" where
  "to_string JUndefined = ''undefined''"
| "to_string JNull = ''null''"
| "to_string (JBool b) = (if b then ''true'' else ''false'')"
| "to_string (JNum n) = string_of_int n"
| "to_string (JStr s) = s"
| "to_string (JArr xs) =
     join_with '','' (map (\<lambda>x. if x = JNull \<or> x = JUndefined then [] else to_string x) xs)"
| "to_string (JObj ps) = ''[object Object]''"

definition line_terminator :: "char \<Rightarrow> bool" where
  "line_terminator c = (c = CHR 0x0A \<or> c = CHR 0x0D)"

text \<open>
  \<open>.*b\<close> matched at the start of \<open>s\<close>: \<open>.\<close> is any character but a line terminator
  (of the four of JavaScript, line feed and carriage return are 8-bit characters).
\<close>

fun dot_star_then :: "string \<Rightarrow> string \<Rightarrow> bool" where
  "dot_star_then b [] = (b = [])"
| "dot_star_then b (c # cs) =
     (take (length b) (c # cs) = b \<or> (\<not> line_terminator c \<and> dot_star_then b cs))"

text \<open>The unanchored search \<open>/a.*b/.test(s)\<close> for literal \<open>a\<close> and \<open>b\<close>.\<close>

fun regex_search :: "string \<Rightarrow> string \<Rightarrow> string \<Rightarrow> bool" where
  "regex_search a b [] = (a = [] \<and> b = [])"
| "regex_search a b (c # cs) =
     ((take (length a) (c # cs) = a \<and> dot_star_then b (drop (length a) (c # cs)))
      \<or> regex_search a b cs)"

definition access_token_expired :: "jsval \<Rightarrow> bool" where
  "access_token_expired v = regex_search ''access token'' ''expired'' (to_string v)"

definition security_token_expired :: "jsval \<Rightarrow> bool" where
  "security_token_expired v = regex_search ''security token'' ''expired'' (to_string v)"

section \<open>The client and what surrounds it\<close>

subsection \<open>Data\<close>

text \<open>
  The \<open>config\<close> argument of the constructor, its fields at their documented types. An
  absent field is \<open>None\<close> (or \<open>JUndefined\<close>); an absent \<open>options\<close> object has every
  option absent.
\<close>

record config_options =
  opt_credentials_path :: "string option"
  opt_auto_request_tokens :: "bool option"
  opt_auto_request_throttled :: "bool option"
  opt_use_sandbox :: "bool option"
  opt_only_grantless_operations :: "bool option"

record config =
  cfg_region :: "string option"
  cfg_refresh_token :: "string option"
  cfg_access_token :: jsval
  cfg_role_credentials :: jsval
  cfg_options :: config_options
  cfg_credentials :: jsval

text \<open>\<open>this._options\<close>, after the defaults have been filled in.\<close>

record options =
  credentials_path :: "string option"
  auto_request_tokens :: bool
  auto_request_throttled :: bool
  use_sandbox :: bool
  only_grantless_operations :: bool

text \<open>What \<open>credentials.load\<close> returns, as far as this file reads it.\<close>

record credentials =
  app_client_id :: jsval
  app_client_secret :: jsval
  aws_user :: jsval

text \<open>The fields of an instance (\<open>this._region\<close>, \<open>this._access_token\<close>, ...).\<close>

record session =
  region :: "string option"
  refresh_token :: "string option"
  access_token :: jsval
  role_credentials :: jsval
  grantless_tokens :: "string \<rightharpoonup> jsval"
  options :: options
  credentials :: credentials

datatype payload = TextBody string | BinaryBody bytes

record http_request =
  req_method :: "string option"
  req_url :: string
  req_headers :: "(string \<times> string) list"
  req_body :: "payload option"

record response =
  statusCode :: int
  res_body :: string
  res_headers :: "(string \<times> string) list"
  chunks :: "bytes list"

text \<open>
  The parameters of a call: what the caller gives (\<open>operation\<close>, \<open>path\<close>, \<open>query\<close>,
  \<open>body\<close>) and what the catalog entry adds (\<open>method\<close>, here \<open>rp_method\<close>, \<open>api_path\<close>, \<open>scope\<close>,
  \<open>restore_rate\<close> in seconds).
\<close>

record req_params =
  operation :: "string option"
  path :: jsval
  query :: jsval
  body :: jsval
  rp_method :: "string option"
  api_path :: "string option"
  scope :: "string option"
  restore_rate :: rat

text \<open>What \<open>download\<close> returns and \<open>_saveFile\<close> writes: a buffer, a string or parsed data.\<close>

datatype document = Buffer bytes | Text string | Json jsval

text \<open>
  The modules and libraries that \<open>SellingPartner.js\<close> requires and that are not part of
  it: the operation catalog, the credential loader, the signer, the parsers, the cipher,
  the codecs and the file system. Each is a parameter; one that can throw returns a result.
  \<open>operations env name\<close> is the value of \<open>operations[name]\<close>, a function from
  parameters to parameters or nothing. The read goes through the prototype chain of the
  catalog object, so it also answers for a name that no entry registers and that
  \<open>Object.prototype\<close> has, such as \<open>constructor\<close>. An inherited member whose call
  returns no parameters object, such as \<open>toString\<close>, has no value of this type.
\<close>

record env =
  operations :: "string \<Rightarrow> (req_params \<Rightarrow> req_params) option"
  credentials_load :: "jsval \<Rightarrow> string option \<Rightarrow> credentials result"
  signRoleCredentialsRequest :: "string option \<Rightarrow> jsval \<Rightarrow> http_request"
  signAPIRequest :: "string option \<Rightarrow> bool \<Rightarrow> jsval \<Rightarrow> jsval \<Rightarrow> req_params \<Rightarrow> http_request"
  JSON_parse :: "string \<Rightarrow> jsval option"
  JSON_stringify :: "document \<Rightarrow> string"
  xml_parse :: "string \<Rightarrow> jsval result"
  csv_fromString :: "string \<Rightarrow> jsval result"
  base64_decode :: "string \<Rightarrow> bytes"
  createCipheriv :: "bytes \<Rightarrow> bytes \<Rightarrow> bytes \<Rightarrow> bytes result"
  createDecipheriv :: "bytes \<Rightarrow> bytes \<Rightarrow> bytes \<Rightarrow> bytes result"
  gunzip :: "bytes \<Rightarrow> bytes result"
  utf8_encode :: "string \<Rightarrow> bytes"
  utf8_decode :: "bytes \<Rightarrow> string"
  iconv_decode :: "bytes \<Rightarrow> string \<Rightarrow> string result"
  fs_readFile :: "string \<Rightarrow> string \<Rightarrow> string result"
  fs_writeFile :: "string \<Rightarrow> document \<Rightarrow> error option"

text \<open>
  Everything a run can observe or change: the instance, the transport (the reply to the
  \<open>n\<close>-th request sent, a response or a rejection) and the effects so far in order:
  requests sent, timers awaited, files read and written.
\<close>

datatype event =
    Request http_request
  | SetTimeout rat
  | ReadFile string string
  | WriteFile string document

record world =
  session :: session
  replies :: "nat \<Rightarrow> response result"
  trace :: "event list"

fun is_request :: "event \<Rightarrow> bool" where
  "is_request (Request r) = True"
| "is_request e = False"

definition n_requests :: "event list \<Rightarrow> nat" where
  "n_requests tr = length (filter is_request tr)"

text \<open>\<open>await request(r)\<close>: the request is sent and the transport's next reply comes back.\<close>

definition request :: "http_request \<Rightarrow> world \<Rightarrow> response result \<times> world" where
  "request r w = (replies w (n_requests (trace w)), w\<lparr>trace := trace w @ [Request r]\<rparr>)"

subsection \<open>Construction\<close>

definition default_to :: "bool \<Rightarrow> bool option \<Rightarrow> bool" where
  "default_to d v = (case v of None \<Rightarrow> d | Some b \<Rightarrow> b)"

definition region_test :: "string \<Rightarrow> bool" where
  "region_test r = (r = ''eu'' \<or> r = ''na'' \<or> r = ''fe'')"

definition constructor :: "env \<Rightarrow> config \<Rightarrow> session result" where
  "constructor env config =
     (let opts = \<lparr>credentials_path = opt_credentials_path (cfg_options config),
                  auto_request_tokens = default_to True (opt_auto_request_tokens (cfg_options config)),
                  auto_request_throttled = default_to True (opt_auto_request_throttled (cfg_options config)),
                  use_sandbox = default_to False (opt_use_sandbox (cfg_options config)),
                  only_grantless_operations =
                    default_to False (opt_only_grantless_operations (cfg_options config))\<rparr>
      in case credentials_load env (cfg_credentials config) (credentials_path opts) of
           Inl e \<Rightarrow> Inl e
         | Inr creds \<Rightarrow>
             if \<not> truthy_str (cfg_region config) \<or> \<not> region_test (str_or_undefined (cfg_region config))
             then Inl (custom_error ''NO_VALID_REGION_PROVIDED''
                         (JStr ''Please provide one of: \"eu\", \"na\" or \"fe\"''))
             else if \<not> truthy_str (cfg_refresh_token config) \<and> \<not> only_grantless_operations opts
             then Inl (custom_error ''NO_REFRESH_TOKEN_PROVIDED''
                         (JStr ''Please provide a refresh token or set \"only_grantless_operations\" option to true''))
             else Inr \<lparr>region = cfg_region config,
                        refresh_token = cfg_refresh_token config,
                        access_token = cfg_access_token config,
                        role_credentials = cfg_role_credentials config,
                        grantless_tokens = Map.empty,
                        options = opts,
                        credentials = creds\<rparr>)"

subsection \<open>Token manager\<close>

text \<open>A property of a value known to be truthy, where the read cannot throw.\<close>

definition field :: "jsval \<Rightarrow> string \<Rightarrow> jsval" where
  "field v k = (case get_prop v k of Inl e \<Rightarrow> JUndefined | Inr x \<Rightarrow> x)"

text \<open>\<open>v && v.k1 && v.k1.k2 && ...\<close>\<close>

fun and_chain :: "jsval \<Rightarrow> string list \<Rightarrow> jsval" where
  "and_chain v [] = v"
| "and_chain v (k # ks) = (if truthy v then and_chain (field v k) ks else v)"

definition custom_error_js :: "jsval \<Rightarrow> jsval \<Rightarrow> error" where
  "custom_error_js c m = CustomError (JObj [(''code'', c), (''message'', m)])"

definition valid_scopes :: "string list" where
  "valid_scopes = [''sellingpartnerapi::notifications'', ''sellingpartnerapi::migration'']"

definition constructRefreshAccessTokenBody :: "env \<Rightarrow> session \<Rightarrow> string option \<Rightarrow> string result" where
  "constructRefreshAccessTokenBody env s scp =
     (let fields = [(''client_id'', app_client_id (credentials s)),
                  (''client_secret'', app_client_secret (credentials s))]
      in if truthy_str scp then
           if str_or_undefined scp \<notin> set valid_scopes
           then Inl (custom_error ''INVALID_SCOPE_ERROR''
                  (JStr (''Scope for requesting token for grantless operations is invalid. Please provide one of: ''
                         @ join_with '','' valid_scopes)))
           else Inr (JSON_stringify env (Json (JObj (fields @
                  [(''grant_type'', JStr ''client_credentials''),
                   (''scope'', JStr (str_or_undefined scp))]))))
         else if \<not> only_grantless_operations (options s) then
           Inr (JSON_stringify env (Json (JObj (fields @
                  [(''grant_type'', JStr ''refresh_token''),
                   (''refresh_token'', opt_to_js (refresh_token s))]))))
         else Inl (custom_error ''NO_SCOPE_PROVIDED''
                (JStr (''Grantless tokens require a scope. Please provide one of: ''
                       @ join_with '','' valid_scopes))))"

definition grantless_token :: "session \<Rightarrow> string option \<Rightarrow> jsval" where
  "grantless_token s scp =
     (case grantless_tokens s (str_or_undefined scp) of None \<Rightarrow> JUndefined | Some t \<Rightarrow> t)"

definition tokenExists :: "session \<Rightarrow> string option \<Rightarrow> bool" where
  "tokenExists s scp =
     ((truthy (access_token s) \<and> \<not> truthy_str scp)
      \<or> (truthy_str scp \<and> truthy (grantless_token s scp)))"

definition refreshAccessToken :: "env \<Rightarrow> string option \<Rightarrow> world \<Rightarrow> unit result \<times> world" where
  "refreshAccessToken env scp w =
     (case constructRefreshAccessTokenBody env (session w) scp of
        Inl e \<Rightarrow> (Inl e, w)
      | Inr b \<Rightarrow>
         (case request \<lparr>req_method = Some ''POST'',
                        req_url = ''https://api.amazon.com/auth/o2/token'',
                        req_headers = [(''Content-Type'', ''application/json'')],
                        req_body = Some (TextBody b)\<rparr> w of
            (Inl e, w1) \<Rightarrow> (Inl e, w1)
          | (Inr res, w1) \<Rightarrow>
             (case JSON_parse env (res_body res) of
                None \<Rightarrow> (Inl (custom_error ''REFRESH_ACCESS_TOKEN_PARSE_ERROR'' (JStr (res_body res))), w1)
              | Some json_res \<Rightarrow>
                 (case get_prop json_res ''access_token'' of
                    Inl e \<Rightarrow> (Inl e, w1)
                  | Inr tok \<Rightarrow>
                     if truthy tok then
                       if \<not> truthy_str scp
                       then (Inr (), w1\<lparr>session := (session w1)\<lparr>access_token := tok\<rparr>\<rparr>)
                       else (Inr (), w1\<lparr>session := (session w1)\<lparr>grantless_tokens :=
                               (grantless_tokens (session w1))(str_or_undefined scp \<mapsto> tok)\<rparr>\<rparr>)
                     else if truthy (field json_res ''error'')
                     then (Inl (custom_error_js (field json_res ''error'')
                                   (field json_res ''error_description'')), w1)
                     else (Inl (custom_error ''UNKNOWN_REFRESH_ACCESS_TOKEN_ERROR''
                                   (JStr (res_body res))), w1)))))"

definition refreshRoleCredentials :: "env \<Rightarrow> world \<Rightarrow> unit result \<times> world" where
  "refreshRoleCredentials env w =
     (let signed_request =
            signRoleCredentialsRequest env (region (session w)) (aws_user (credentials (session w)))
      in case request signed_request w of
           (Inl e, w1) \<Rightarrow> (Inl e, w1)
         | (Inr res, w1) \<Rightarrow>
            (case xml_parse env (res_body res) of
               Inl e \<Rightarrow> (Inl (custom_error ''XML_PARSE_ERROR'' (JStr (res_body res))), w1)
             | Inr json_res \<Rightarrow>
                if truthy (and_chain json_res [''AssumeRoleResponse'', ''AssumeRoleResult'', ''Credentials''])
                then
                  (let creds =
                         and_chain json_res [''AssumeRoleResponse'', ''AssumeRoleResult'', ''Credentials'']
                   in (Inr (), w1\<lparr>session := (session w1)\<lparr>role_credentials :=
                         JObj [(''id'', field creds ''AccessKeyId''),
                               (''secret'', field creds ''SecretAccessKey''),
                               (''security_token'', field creds ''SessionToken'')]\<rparr>\<rparr>))
                else if truthy (and_chain json_res [''ErrorResponse'', ''Error''])
                then (Inl (custom_error_js
                             (field (and_chain json_res [''ErrorResponse'', ''Error'']) ''Code'')
                             (field (and_chain json_res [''ErrorResponse'', ''Error'']) ''Message'')), w1)
                else (Inl (custom_error ''NO_ROLE_CREDENTIALS_RECEIVED'' (JStr (res_body res))), w1)))"

definition no_access_error :: error where
  "no_access_error =
     custom_error ''NO_ACCESS_TOKEN_AND_OR_ROLE_CREDENTIALS_PRESENT''
       (JStr ''Did you turn off \"auto_request_tokens\" and forgot to refresh the access token and/or role credentials and/or the scope for a grantless token?'')"

text \<open>
  Lines 207 to 212 of \<open>_validateAccessTokenAndRoleCredentials\<close>, the body of its
  \<open>if (this._options.auto_request_tokens)\<close>: what is missing is refreshed, the token
  first.
\<close>

definition refresh_missing :: "env \<Rightarrow> string option \<Rightarrow> world \<Rightarrow> unit result \<times> world" where
  "refresh_missing env scp w =
     (case (if \<not> tokenExists (session w) scp
            then refreshAccessToken env scp w else (Inr (), w)) of
        (Inl e, w1) \<Rightarrow> (Inl e, w1)
      | (Inr u, w1) \<Rightarrow>
         if \<not> truthy (role_credentials (session w1))
         then refreshRoleCredentials env w1 else (Inr (), w1))"

definition validateAccessTokenAndRoleCredentials ::
    "env \<Rightarrow> string option \<Rightarrow> world \<Rightarrow> unit result \<times> world" where
  "validateAccessTokenAndRoleCredentials env scp w =
     (case (if auto_request_tokens (options (session w))
            then refresh_missing env scp w else (Inr (), w)) of
        (Inl e, w2) \<Rightarrow> (Inl e, w2)
      | (Inr u, w2) \<Rightarrow>
         if \<not> tokenExists (session w2) scp \<or> \<not> truthy (role_credentials (session w2))
         then (Inl no_access_error, w2)
         else (Inr (), w2))"

subsection \<open>Orchestrator\<close>

definition validateOperation :: "env \<Rightarrow> string option \<Rightarrow> unit result" where
  "validateOperation env op =
     (if \<not> truthy_str op
      then Inl (custom_error ''NO_OPERATION_GIVEN'' (JStr ''Please provide an operation to call''))
      else if operations env (str_or_undefined op) = None
      then Inl (custom_error ''OPERATION_NOT_FOUND''
                  (JStr (''No operation found: '' @ str_or_undefined op)))
      else Inr ())"

definition validateOperationAllowance :: "session \<Rightarrow> string option \<Rightarrow> unit result" where
  "validateOperationAllowance s scp =
     (if only_grantless_operations (options s) \<and> \<not> truthy_str scp
      then Inl (custom_error ''INVALID_OPERATION_ERROR''
                  (JStr ''Operation is not grantless. Set \"only_grantless_operations\" to false and provide a \"refresh_token\" to be able to call the operation.''))
      else Inr ())"

text \<open>\<open>_wait(restore_rate)\<close>: a timer of \<open>restore_rate * 1000\<close> milliseconds is awaited.\<close>

definition wait :: "rat \<Rightarrow> world \<Rightarrow> world" where
  "wait rate w = w\<lparr>trace := trace w @ [SetTimeout (rate * 1000)]\<rparr>"

text \<open>
  The first half of \<open>callAPI\<close>, up to the reply of the transport: the operation is
  validated and expanded by its catalog entry, tokens and credentials are ensured, the
  request is signed and sent. It yields the expanded parameters and the response.
\<close>

definition callAPI_send ::
    "env \<Rightarrow> req_params \<Rightarrow> world \<Rightarrow> (req_params \<times> response) result \<times> world" where
  "callAPI_send env req_params w =
     (case validateOperation env (operation req_params) of
        Inl e \<Rightarrow> (Inl e, w)
      | Inr u \<Rightarrow>
         (case operations env (str_or_undefined (operation req_params)) of
            None \<Rightarrow> (Inl TypeError, w)
          | Some expand \<Rightarrow>
             (let req_params1 = expand req_params; scp = scope req_params1
              in case validateOperationAllowance (session w) scp of
                   Inl e \<Rightarrow> (Inl e, w)
                 | Inr u \<Rightarrow>
                    (case validateAccessTokenAndRoleCredentials env scp w of
                       (Inl e, w1) \<Rightarrow> (Inl e, w1)
                     | (Inr u, w1) \<Rightarrow>
                        (let token_for_request =
                               (if truthy_str scp then grantless_token (session w1) scp
                                else access_token (session w1));
                             signed_request =
                               signAPIRequest env (region (session w1))
                                 (use_sandbox (options (session w1)))
                                 token_for_request (role_credentials (session w1)) req_params1
                         in case request signed_request w1 of
                              (Inl e, w2) \<Rightarrow> (Inl e, w2)
                            | (Inr res, w2) \<Rightarrow> (Inr (req_params1, res), w2))))))"

definition sandbox_error :: error where
  "sandbox_error =
     custom_error ''INVALID_SANDBOX_PARAMETERS''
       (JStr ''You're in SANDBOX mode, make sure sandbox parameters are correct, as in Amazon SP API documentation: https://github.com/amzn/selling-partner-api-docs/blob/main/guides/developer-guide/SellingPartnerApiDeveloperGuide.md#how-to-make-a-sandbox-call-to-the-selling-partner-api'')"

text \<open>
  \<open>callAPI\<close>. The retries are calls of \<open>callAPI\<close> itself with the expanded parameters;
  nothing bounds them, so a run that never returns is \<open>None\<close>.
\<close>

partial_function (option) callAPI ::
    "env \<Rightarrow> req_params \<Rightarrow> world \<Rightarrow> (retval result \<times> world) option" where
  "callAPI env req_params w =
     (case callAPI_send env req_params w of
        (Inl e, w1) \<Rightarrow> Some (Inl e, w1)
      | (Inr (req_params1, res), w1) \<Rightarrow>
         if statusCode res = 204 \<and> rp_method req_params1 = Some ''DELETE''
         then Some (Inr (Val (JObj [(''success'', JBool True)])), w1)
         else
          (case JSON_parse env (filter (\<lambda>c. c \<noteq> CHR 0x0A) (res_body res)) of
             None \<Rightarrow> Some (Inl (custom_error ''JSON_PARSE_ERROR'' (JStr (res_body res))), w1)
           | Some json_res \<Rightarrow>
              (case get_prop json_res ''errors'' of
                 Inl e \<Rightarrow> Some (Inl e, w1)
               | Inr errors \<Rightarrow>
                  if truthy errors then
                    (case get_prop (field errors ''0'') ''code'' of
                       Inl e \<Rightarrow> Some (Inl e, w1)
                     | Inr code \<Rightarrow>
                        (let err = field errors ''0'' in
                         if statusCode res = 403 \<and> code = JStr ''Unauthorized'' then
                           if auto_request_tokens (options (session w1)) then
                             if access_token_expired (field err ''details'') then
                               (case refreshAccessToken env (scope req_params1) w1 of
                                  (Inl e, w2) \<Rightarrow> Some (Inl e, w2)
                                | (Inr u, w2) \<Rightarrow> callAPI env req_params1 w2)
                             else if security_token_expired (field err ''message'') then
                               (case refreshRoleCredentials env w1 of
                                  (Inl e, w2) \<Rightarrow> Some (Inl e, w2)
                                | (Inr u, w2) \<Rightarrow> callAPI env req_params1 w2)
                             else Some (Inl (CustomError err), w1)
                           else Some (Inl (CustomError err), w1)
                         else if statusCode res = 429 \<and> code = JStr ''QuotaExceeded''
                                 \<and> auto_request_throttled (options (session w1)) then
                           callAPI env req_params1 (wait (restore_rate req_params1) w1)
                         else if code = JStr ''InternalFailure'' \<and> use_sandbox (options (session w1))
                         then Some (Inl sandbox_error, w1)
                         else Some (Inl (CustomError err), w1)))
                  else if truthy (field json_res ''pagination'') \<and> truthy (field json_res ''payload'')
                  then Some (Inr (Object_assign (field json_res ''pagination'')
                                                (field json_res ''payload'')), w1)
                  else if truthy (field json_res ''payload'')
                  then Some (Inr (Val (field json_res ''payload'')), w1)
                  else Some (Inr (Val json_res), w1))))"

subsection \<open>Transfer codec\<close>

record encryption_details =
  standard :: "string option"
  key :: "string option"
  initializationVector :: "string option"

record details =
  encryptionDetails :: "encryption_details option"
  url :: "string option"
  compressionAlgorithm :: "string option"

text \<open>The \<open>options\<close> argument of \<open>download\<close>; an absent \<open>unzip\<close> defaults to \<open>true\<close>.\<close>

record download_options =
  dl_unzip :: "bool option"
  dl_json :: bool
  dl_file :: "string option"
  dl_charset :: "string option"

record feed =
  feed_content :: "string option"
  feed_file :: "string option"
  feed_contentType :: "string option"

text \<open>
  \<open>_validateEncryptionDetails\<close>. It returns nothing in the source; here a passed check
  hands back the parts it has found present: the details, their encryption details and
  the url.
\<close>

definition validateEncryptionDetails ::
    "details option \<Rightarrow> (details \<times> encryption_details \<times> string) result" where
  "validateEncryptionDetails dopt =
     (case dopt of
        None \<Rightarrow> Inl (custom_error ''DOWNLOAD_INFORMATION_MISSING''
                      (JStr ''Please provide encryptionDetails and url''))
      | Some d \<Rightarrow>
         (case encryptionDetails d of
            None \<Rightarrow> Inl (custom_error ''DOWNLOAD_INFORMATION_MISSING''
                          (JStr ''Please provide encryptionDetails and url''))
          | Some ed \<Rightarrow>
             if \<not> truthy_str (url d)
             then Inl (custom_error ''DOWNLOAD_INFORMATION_MISSING''
                         (JStr ''Please provide encryptionDetails and url''))
             else if standard ed \<noteq> Some ''AES''
             then Inl (custom_error ''UNKNOWN_ENCRYPTION_STANDARD''
                         (JStr (''Cannot decrypt '' @ str_or_undefined (standard ed) @ '', expecting AES'')))
             else if truthy_str (compressionAlgorithm d) \<and> compressionAlgorithm d \<noteq> Some ''GZIP''
             then Inl (custom_error ''UNKNOWN_ZIP_STANDARD''
                         (JStr (''Cannot unzip '' @ str_or_undefined (compressionAlgorithm d) @ '', expecting GZIP'')))
             else Inr (d, ed, str_or_undefined (url d))))"

definition validateUpOrDownloadSuccess :: "env \<Rightarrow> response \<Rightarrow> string \<Rightarrow> unit result" where
  "validateUpOrDownloadSuccess env res request_type =
     (if statusCode res \<noteq> 200 then
        (case xml_parse env (res_body res) of
           Inl e \<Rightarrow> Inl (custom_error (request_type @ ''_ERROR'') (JStr (res_body res)))
         | Inr json_res \<Rightarrow>
            if truthy (and_chain json_res [''Error''])
            then Inl (custom_error_js (field (field json_res ''Error'') ''Code'')
                                      (field (field json_res ''Error'') ''Message''))
            else Inl (custom_error (request_type @ ''_ERROR'') json_res))
      else Inr ())"

text \<open>\<open>Buffer.from(s, 'base64')\<close>: an absent string is a \<open>TypeError\<close>.\<close>

definition buffer_from_base64 :: "env \<Rightarrow> string option \<Rightarrow> bytes result" where
  "buffer_from_base64 env s = (case s of None \<Rightarrow> Inl TypeError | Some t \<Rightarrow> Inr (base64_decode env t))"

text \<open>
  The two uses of the cipher: \<open>aes-256-cbc\<close> keyed by the base64-decoded key and
  initialization vector of the encryption details, in that order.
\<close>

definition decrypt :: "env \<Rightarrow> encryption_details \<Rightarrow> bytes \<Rightarrow> bytes result" where
  "decrypt env ed encrypted_buffer =
     (case buffer_from_base64 env (key ed) of
        Inl e \<Rightarrow> Inl e
      | Inr k \<Rightarrow>
         (case buffer_from_base64 env (initializationVector ed) of
            Inl e \<Rightarrow> Inl e
          | Inr iv \<Rightarrow> createDecipheriv env k iv encrypted_buffer))"

definition encrypt :: "env \<Rightarrow> encryption_details \<Rightarrow> string \<Rightarrow> bytes result" where
  "encrypt env ed plain =
     (case buffer_from_base64 env (key ed) of
        Inl e \<Rightarrow> Inl e
      | Inr k \<Rightarrow>
         (case buffer_from_base64 env (initializationVector ed) of
            Inl e \<Rightarrow> Inl e
          | Inr iv \<Rightarrow> createCipheriv env k iv (utf8_encode env plain)))"

fun error_message :: "error \<Rightarrow> jsval" where
  "error_message (CustomError v) = field v ''message''"
| "error_message TypeError = JStr ''TypeError''"
| "error_message (LibraryError m) = JStr m"

fun str_includes :: "string \<Rightarrow> string \<Rightarrow> bool" where
  "str_includes [] p = (p = [])"
| "str_includes (c # cs) p = (take (length p) (c # cs) = p \<or> str_includes cs p)"

definition parse_error :: "string \<Rightarrow> error" where
  "parse_error decrypted =
     CustomError (JObj [(''code'', JStr ''PARSE_ERROR''),
                        (''message'', JStr ''Could not parse result to JSON.''),
                        (''details'', JStr decrypted)])"

text \<open>Lines 413 to 444 of \<open>download\<close>: decoding, then the transformation to JSON.\<close>

definition decode_and_transform ::
    "env \<Rightarrow> response \<Rightarrow> download_options \<Rightarrow> bytes \<Rightarrow> document result" where
  "decode_and_transform env res opts buf =
     (case (if truthy_str (dl_charset opts)
            then (case iconv_decode env buf (str_or_undefined (dl_charset opts)) of
                    Inl e \<Rightarrow> Inl (custom_error_js (JStr ''DECODE_ERROR'') (error_message e))
                  | Inr t \<Rightarrow> Inr t)
            else Inr (utf8_decode env buf)) of
        Inl e \<Rightarrow> Inl e
      | Inr decrypted \<Rightarrow>
         if dl_json opts then
           (case map_of (res_headers res) ''content-type'' of
              None \<Rightarrow> Inl (parse_error decrypted)
            | Some ct \<Rightarrow>
               if str_includes ct ''xml'' then
                 (case xml_parse env decrypted of
                    Inl e \<Rightarrow> Inl (parse_error decrypted)
                  | Inr v \<Rightarrow> Inr (Json v))
               else if str_includes ct ''plain'' then
                 (case csv_fromString env decrypted of
                    Inl e \<Rightarrow> Inl (parse_error decrypted)
                  | Inr v \<Rightarrow> Inr (Json v))
               else Inr (Text decrypted))
         else Inr (Text decrypted))"

definition saveFile :: "env \<Rightarrow> document \<Rightarrow> download_options \<Rightarrow> world \<Rightarrow> unit result \<times> world" where
  "saveFile env doc opts w =
     (let written = (if dl_json opts then Text (JSON_stringify env doc) else doc);
          w1 = w\<lparr>trace := trace w @ [WriteFile (str_or_undefined (dl_file opts)) written]\<rparr>
      in case fs_writeFile env (str_or_undefined (dl_file opts)) written of
           Some e \<Rightarrow> (Inl e, w1)
         | None \<Rightarrow> (Inr (), w1))"

definition download ::
    "env \<Rightarrow> details option \<Rightarrow> download_options \<Rightarrow> world \<Rightarrow> document result \<times> world" where
  "download env dopt opts w =
     (let unzip = default_to True (dl_unzip opts)
      in case validateEncryptionDetails dopt of
           Inl e \<Rightarrow> (Inl e, w)
         | Inr (d, ed, u) \<Rightarrow>
            (case request \<lparr>req_method = None, req_url = u, req_headers = [], req_body = None\<rparr> w of
               (Inl e, w1) \<Rightarrow> (Inl e, w1)
             | (Inr res, w1) \<Rightarrow>
                (case validateUpOrDownloadSuccess env res ''DOWNLOAD'' of
                   Inl e \<Rightarrow> (Inl e, w1)
                 | Inr u1 \<Rightarrow>
                    (case decrypt env ed (concat (chunks res)) of
                       Inl e \<Rightarrow> (Inl e, w1)
                     | Inr decrypted_buffer \<Rightarrow>
                        (case (if truthy_str (compressionAlgorithm d) \<and> unzip
                               then gunzip env decrypted_buffer else Inr decrypted_buffer) of
                           Inl e \<Rightarrow> (Inl e, w1)
                         | Inr decrypted_buffer1 \<Rightarrow>
                            (case (if \<not> truthy_str (compressionAlgorithm d) \<or> unzip
                                   then decode_and_transform env res opts decrypted_buffer1
                                   else Inr (Buffer decrypted_buffer1)) of
                               Inl e \<Rightarrow> (Inl e, w1)
                             | Inr decrypted \<Rightarrow>
                                if truthy_str (dl_file opts) then
                                  (case saveFile env decrypted opts w1 of
                                     (Inl e, w2) \<Rightarrow> (Inl e, w2)
                                   | (Inr u2, w2) \<Rightarrow> (Inr decrypted, w2))
                                else (Inr decrypted, w1)))))))"

definition to_upper :: "char \<Rightarrow> char" where
  "to_upper c =
     (case map_of (zip ''abcdefghijklmnopqrstuvwxyz'' ''ABCDEFGHIJKLMNOPQRSTUVWXYZ'') c of
        None \<Rightarrow> c
      | Some u \<Rightarrow> u)"

text \<open>The rest of \<open>s\<close> after the first occurrence of \<open>p\<close>.\<close>

fun after_first :: "string \<Rightarrow> string \<Rightarrow> string option" where
  "after_first p [] = (if p = [] then Some [] else None)"
| "after_first p (c # cs) =
     (if take (length p) (c # cs) = p then Some (drop (length p) (c # cs)) else after_first p cs)"

text \<open>The group of \<open>/charset=([^;]*)/\<close> in the content type, \<open>utf-8\<close> when there is none.\<close>

definition charset_of :: "string \<Rightarrow> string" where
  "charset_of content_type =
     (case after_first ''charset='' content_type of
        None \<Rightarrow> ''utf-8''
      | Some rest \<Rightarrow>
         if takeWhile (\<lambda>c. c \<noteq> CHR '';'') rest \<noteq> [] then takeWhile (\<lambda>c. c \<noteq> CHR '';'') rest
         else ''utf-8'')"

definition readFile :: "env \<Rightarrow> string \<Rightarrow> string \<Rightarrow> world \<Rightarrow> string result \<times> world" where
  "readFile env fname content_type w =
     (let encoding = charset_of content_type;
          encoding1 = (if map to_upper encoding = ''ISO-8859-1'' then ''latin1'' else encoding)
      in (fs_readFile env fname encoding1, w\<lparr>trace := trace w @ [ReadFile fname encoding1]\<rparr>))"

definition upload ::
    "env \<Rightarrow> details option \<Rightarrow> feed option \<Rightarrow> world \<Rightarrow> jsval result \<times> world" where
  "upload env dopt fopt w =
     (case validateEncryptionDetails dopt of
        Inl e \<Rightarrow> (Inl e, w)
      | Inr (d, ed, u) \<Rightarrow>
         (case fopt of
            None \<Rightarrow> (Inl (custom_error ''NO_FEED_CONTENT_PROVIDED''
                       (JStr ''Please provide \"content\" (string) or \"file\" (absolute path) of feed.'')), w)
          | Some f \<Rightarrow>
             if \<not> truthy_str (feed_content f) \<and> \<not> truthy_str (feed_file f)
             then (Inl (custom_error ''NO_FEED_CONTENT_PROVIDED''
                       (JStr ''Please provide \"content\" (string) or \"file\" (absolute path) of feed.'')), w)
             else if \<not> truthy_str (feed_contentType f)
             then (Inl (custom_error ''NO_FEED_CONTENT_TYPE_PROVIDED''
                       (JStr ''Please provide \"contentType\" of feed (should be identical to the contentType used in \"createFeedDocument\" operation).'')), w)
             else
               (case (if truthy_str (feed_content f)
                      then (Inr (str_or_undefined (feed_content f)), w)
                      else readFile env (str_or_undefined (feed_file f))
                             (str_or_undefined (feed_contentType f)) w) of
                  (Inl e, w1) \<Rightarrow> (Inl e, w1)
                | (Inr content, w1) \<Rightarrow>
                   (case encrypt env ed content of
                      Inl e \<Rightarrow> (Inl e, w1)
                    | Inr encrypted_buffer \<Rightarrow>
                       (case request \<lparr>req_method = Some ''PUT'', req_url = u,
                                      req_headers = [(''Content-Type'', str_or_undefined (feed_contentType f))],
                                      req_body = Some (BinaryBody encrypted_buffer)\<rparr> w1 of
                          (Inl e, w2) \<Rightarrow> (Inl e, w2)
                        | (Inr res, w2) \<Rightarrow>
                           (case validateUpOrDownloadSuccess env res ''UPLOAD'' of
                              Inl e \<Rightarrow> (Inl e, w2)
                            | Inr u1 \<Rightarrow> (Inr (JObj [(''success'', JBool True)]), w2)))))))"

text \<open>The \<open>code\<close> an error carries, which is what callers test.\<close>

fun error_code :: "error \<Rightarrow> jsval" where
  "error_code (CustomError v) = field v ''code''"
| "error_code e = JUndefined"

section \<open>A concrete environment\<close>

text \<open>
  One instance of the parameters, on which the theorems below are exercised: a catalog
  with a single operation, a parser that knows a handful of bodies, and a toy cipher that
  adds one to every byte.
\<close>

text \<open>
  A 32-byte key and a 16-byte initialization vector in base64, and the only two strings
  the concrete decoder knows.
\<close>

definition example_key :: string where
  "example_key = ''MDEyMzQ1Njc4OWFiY2RlZjAxMjM0NTY3ODlhYmNkZWY=''"

definition example_iv :: string where
  "example_iv = ''ZmVkY2JhOTg3NjU0MzIxMA==''"

definition example_base64 :: "string \<Rightarrow> bytes" where
  "example_base64 s =
     (if s = example_key
      then [48, 49, 50, 51, 52, 53, 54, 55, 56, 57, 97, 98, 99, 100, 101, 102,
            48, 49, 50, 51, 52, 53, 54, 55, 56, 57, 97, 98, 99, 100, 101, 102]
      else if s = example_iv
      then [102, 101, 100, 99, 98, 97, 57, 56, 55, 54, 53, 52, 51, 50, 49, 48]
      else [])"

definition example_encryption :: "string option \<Rightarrow> encryption_details" where
  "example_encryption std =
     \<lparr>standard = std, key = Some example_key, initializationVector = Some example_iv\<rparr>"

definition example_parse :: "string \<Rightarrow> jsval option" where
  "example_parse s =
     (if s = ''{\"payload\":{\"ok\":true}}''
        then Some (JObj [(''payload'', JObj [(''ok'', JBool True)])])
      else if s = ''{\"errors\":[{\"code\":\"QuotaExceeded\"}]}''
        then Some (JObj [(''errors'', JArr [JObj [(''code'', JStr ''QuotaExceeded'')]])])
      else if s = ''{\"errors\":[{\"code\":\"Unauthorized\",\"details\":\"The access token you provided has expired.\"}]}''
        then Some (JObj [(''errors'', JArr [JObj [(''code'', JStr ''Unauthorized''),
               (''details'', JStr ''The access token you provided has expired.'')]])])
      else if s = ''{\"access_token\":\"Atza|fresh\"}''
        then Some (JObj [(''access_token'', JStr ''Atza|fresh'')])
      else if s = ''{\"error\":\"invalid_grant\"}''
        then Some (JObj [(''error'', JStr ''invalid_grant'')])
      else if s = ''{\"pagination\":{\"nextToken\":\"a\"},\"payload\":{\"nextToken\":\"b\"}}''
        then Some (JObj [(''pagination'', JObj [(''nextToken'', JStr ''a'')]),
                         (''payload'', JObj [(''nextToken'', JStr ''b'')])])
      else if s = ''{\"pagination\":{\"nextToken\":\"a\"},\"payload\":{\"granularity\":\"Marketplace\"}}''
        then Some (JObj [(''pagination'', JObj [(''nextToken'', JStr ''a'')]),
                         (''payload'', JObj [(''granularity'', JStr ''Marketplace'')])])
      else None)"

definition example_credentials :: credentials where
  "example_credentials =
     \<lparr>app_client_id = JStr ''amzn1.application-oa2-client.x'',
      app_client_secret = JStr ''secret'',
      aws_user = JObj [(''id'', JStr ''AKIA''), (''secret'', JStr ''s''), (''role'', JStr ''arn:aws:iam::1:role/sp'')]\<rparr>"

text \<open>
  The catalog of the concrete environment registers one operation. Its lookup finds that
  entry and, through the prototype chain of the catalog object, \<open>constructor\<close>, which is
  \<open>Object\<close> and returns the parameters it is given.
\<close>

definition example_catalog :: "(string \<times> (req_params \<Rightarrow> req_params)) list" where
  "example_catalog =
     [(''getOrders'', \<lambda>rp. rp\<lparr>rp_method := Some ''GET'',
                                api_path := Some ''/orders/v0/orders'',
                                restore_rate := 60\<rparr>)]"

definition example_operations :: "string \<Rightarrow> (req_params \<Rightarrow> req_params) option" where
  "example_operations op =
     (case map_of example_catalog op of
        Some expand \<Rightarrow> Some expand
      | None \<Rightarrow> if op = ''constructor'' then Some (\<lambda>rp. rp) else None)"

text \<open>
  A loader that rejects a credentials object without fields and otherwise finds the
  credentials of the environment.
\<close>

definition example_load :: "jsval \<Rightarrow> string option \<Rightarrow> credentials result" where
  "example_load c p =
     (if c = JObj [] then Inl (custom_error ''CREDENTIALS_MISSING'' (JStr ''Could not find credentials''))
      else Inr example_credentials)"

definition example_env :: env where
  "example_env =
     \<lparr>operations = example_operations,
      credentials_load = example_load,
      signRoleCredentialsRequest = (\<lambda>r u.
         \<lparr>req_method = Some ''POST'', req_url = ''https://sts.amazonaws.com'',
          req_headers = [], req_body = Some (TextBody ''Action=AssumeRole'')\<rparr>),
      signAPIRequest = (\<lambda>r sandbox tok creds rp.
         \<lparr>req_method = rp_method rp,
          req_url = ''https://sellingpartnerapi-eu.amazon.com'' @ str_or_undefined (api_path rp),
          req_headers = [(''x-amz-access-token'', to_string tok)], req_body = None\<rparr>),
      JSON_parse = example_parse,
      JSON_stringify = (\<lambda>d. ''{}''),
      xml_parse = (\<lambda>s. Inl (LibraryError ''not xml'')),
      csv_fromString = (\<lambda>s. Inl (LibraryError ''not csv'')),
      base64_decode = example_base64,
      createCipheriv = (\<lambda>k iv m. Inr (map (\<lambda>b. b + 1) m)),
      createDecipheriv = (\<lambda>k iv c. Inr (map (\<lambda>b. b - 1) c)),
      gunzip = (\<lambda>b. case b of [] \<Rightarrow> Inl (LibraryError ''incorrect header check'') | x # xs \<Rightarrow> Inr xs),
      utf8_encode = map (\<lambda>c. of_nat (of_char c)),
      utf8_decode = map (\<lambda>b. char_of (unat b)),
      iconv_decode = (\<lambda>b cs. Inr (map (\<lambda>b. char_of (unat b)) b)),
      fs_readFile = (\<lambda>f enc. if f = ''/tmp/feed.xml'' then Inr ''<feed/>'' else Inl (LibraryError ''ENOENT'')),
      fs_writeFile = (\<lambda>f d. None)\<rparr>"

definition example_options :: options where
  "example_options =
     \<lparr>credentials_path = None, auto_request_tokens = True, auto_request_throttled = True,
      use_sandbox = False, only_grantless_operations = False\<rparr>"

definition example_session :: session where
  "example_session =
     \<lparr>region = Some ''eu'',
      refresh_token = Some ''Atzr|refresh'',
      access_token = JStr ''Atza|stale'',
      role_credentials = JObj [(''id'', JStr ''ASIA''), (''secret'', JStr ''k''), (''security_token'', JStr ''t'')],
      grantless_tokens = Map.empty,
      options = example_options,
      credentials = example_credentials\<rparr>"

definition respond :: "int \<Rightarrow> string \<Rightarrow> response result" where
  "respond st b = Inr \<lparr>statusCode = st, res_body = b, res_headers = [], chunks = []\<rparr>"

text \<open>A world whose transport answers the requests with the listed replies, then rejects.\<close>

definition example_world :: "session \<Rightarrow> response result list \<Rightarrow> world" where
  "example_world s rs =
     \<lparr>session = s,
      replies = (\<lambda>n. if n < length rs then rs ! n else Inl (LibraryError ''ECONNRESET'')),
      trace = []\<rparr>"

definition example_params :: "string option \<Rightarrow> req_params" where
  "example_params op =
     \<lparr>operation = op, path = JUndefined, query = JUndefined, body = JUndefined,
      rp_method = None, api_path = None, scope = None, restore_rate = 0\<rparr>"

definition example_config :: "string option \<Rightarrow> config" where
  "example_config r =
     \<lparr>cfg_region = r, cfg_refresh_token = Some ''Atzr|refresh'', cfg_access_token = JUndefined,
      cfg_role_credentials = JUndefined,
      cfg_options = \<lparr>opt_credentials_path = None, opt_auto_request_tokens = None,
                     opt_auto_request_throttled = None, opt_use_sandbox = None,
                     opt_only_grantless_operations = None\<rparr>,
      cfg_credentials = JUndefined\<rparr>"

definition example_details :: "string option \<Rightarrow> string option \<Rightarrow> string option \<Rightarrow> details" where
  "example_details std u z =
     \<lparr>encryptionDetails = Some (example_encryption std),
      url = u, compressionAlgorithm = z\<rparr>"

definition example_download_options :: download_options where
  "example_download_options = \<lparr>dl_unzip = None, dl_json = False, dl_file = None, dl_charset = None\<rparr>"

definition example_request :: "string \<Rightarrow> http_request" where
  "example_request tok =
     \<lparr>req_method = Some ''GET'',
      req_url = ''https://sellingpartnerapi-eu.amazon.com/orders/v0/orders'',
      req_headers = [(''x-amz-access-token'', tok)], req_body = None\<rparr>"

definition example_expanded :: req_params where
  "example_expanded =
     (example_params (Some ''getOrders''))\<lparr>rp_method := Some ''GET'',
        api_path := Some ''/orders/v0/orders'', restore_rate := 60\<rparr>"

definition example_token_request :: http_request where
  "example_token_request =
     \<lparr>req_method = Some ''POST'', req_url = ''https://api.amazon.com/auth/o2/token'',
      req_headers = [(''Content-Type'', ''application/json'')], req_body = Some (TextBody ''{}'')\<rparr>"

section \<open>Who writes the instance\<close>

text \<open>
  \<open>effects_only w w'\<close>: from \<open>w\<close> to \<open>w'\<close> effects have been added to the trace, and
  the instance and the transport are what they were.
\<close>

definition effects_only :: "world \<Rightarrow> world \<Rightarrow> bool" where
  "effects_only w w' =
     (session w' = session w \<and> replies w' = replies w
      \<and> take (length (trace w)) (trace w') = trace w)"

text \<open>
  \<open>refreshed env w w'\<close>: the world \<open>w'\<close> is reached from \<open>w\<close> by steps that only add
  effects and by runs of the two refresh operations.
\<close>

inductive refreshed :: "env \<Rightarrow> world \<Rightarrow> world \<Rightarrow> bool" for env where
  same: "effects_only w w' \<Longrightarrow> refreshed env w w'"
| token: "refreshed env w w1 \<Longrightarrow> refreshAccessToken env scp w1 = (r, w2) \<Longrightarrow> refreshed env w w2"
| role: "refreshed env w w1 \<Longrightarrow> refreshRoleCredentials env w1 = (r, w2) \<Longrightarrow> refreshed env w w2"
| frame: "refreshed env w w1 \<Longrightarrow> effects_only w1 w2 \<Longrightarrow> refreshed env w w2"

section \<open>Properties\<close>

text \<open>The fields of the concrete environment, for evaluation.\<close>

lemma example_env_simps:
  "operations example_env = (\<lambda>op. if op = ''getOrders''
                       then Some (\<lambda>rp. rp\<lparr>rp_method := Some ''GET'',
                                          api_path := Some ''/orders/v0/orders'',
                                          restore_rate := 60\<rparr>)
                       else if op = ''constructor'' then Some (\<lambda>rp. rp) else None)"
  "credentials_load example_env = example_load"
  "signAPIRequest example_env = (\<lambda>r sandbox tok creds rp.
         \<lparr>req_method = rp_method rp,
          req_url = ''https://sellingpartnerapi-eu.amazon.com'' @ str_or_undefined (api_path rp),
          req_headers = [(''x-amz-access-token'', to_string tok)], req_body = None\<rparr>)"
  "JSON_stringify example_env = (\<lambda>d. ''{}'')"
  "JSON_parse example_env = example_parse"
  "base64_decode example_env = example_base64"
  "createCipheriv example_env = (\<lambda>k iv m. Inr (map (\<lambda>b. b + 1) m))"
  "createDecipheriv example_env = (\<lambda>k iv c. Inr (map (\<lambda>b. b - 1) c))"
  "gunzip example_env = (\<lambda>b. case b of [] \<Rightarrow> Inl (LibraryError ''incorrect header check'') | x # xs \<Rightarrow> Inr xs)"
  "utf8_encode example_env = map (\<lambda>c. of_nat (of_char c))"
  "utf8_decode example_env = map (\<lambda>b. char_of (unat b))"
  "fs_readFile example_env = (\<lambda>f enc. if f = ''/tmp/feed.xml'' then Inr ''<feed/>'' else Inl (LibraryError ''ENOENT''))"
  by (simp_all add: example_env_def example_operations_def example_catalog_def fun_eq_iff)

subsection \<open>Construction\<close>

text \<open>
  C5, as the claim states it, fails: the constructor calls \<open>credentials.load\<close> before it
  tests the region, so a configuration with the region \<open>us\<close> whose credentials the loader
  rejects fails with the error of the loader, not with \<open>NO_VALID_REGION_PROVIDED\<close>.
\<close>

theorem constructor_invalid_region_counterexample:
  "constructor example_env ((example_config (Some ''us''))\<lparr>cfg_credentials := JObj []\<rparr>) =
     Inl (custom_error ''CREDENTIALS_MISSING'' (JStr ''Could not find credentials''))
   \<and> error_code (custom_error ''CREDENTIALS_MISSING'' (JStr ''Could not find credentials''))
       \<noteq> JStr ''NO_VALID_REGION_PROVIDED''"
  by (simp add: constructor_def example_env_simps example_load_def example_config_def
                custom_error_def field_def)

text \<open>
  C5, amended. When \<open>credentials.load\<close> throws, the constructor fails with that error.
  When it returns, a configuration whose region is absent or is none of \<open>eu\<close>, \<open>na\<close>,
  \<open>fe\<close> is rejected with \<open>NO_VALID_REGION_PROVIDED\<close>, whatever its other fields are.
\<close>

theorem constructor_invalid_region:
  "(credentials_load env (cfg_credentials config) (opt_credentials_path (cfg_options config)) = Inl e
      \<longrightarrow> constructor env config = Inl e)
   \<and> (credentials_load env (cfg_credentials config) (opt_credentials_path (cfg_options config)) = Inr creds
        \<and> cfg_region config \<noteq> Some ''eu'' \<and> cfg_region config \<noteq> Some ''na''
        \<and> cfg_region config \<noteq> Some ''fe''
      \<longrightarrow> constructor env config =
            Inl (custom_error ''NO_VALID_REGION_PROVIDED''
                   (JStr ''Please provide one of: \"eu\", \"na\" or \"fe\"'')))"
  by (cases "cfg_region config") (auto simp: constructor_def region_test_def Let_def)

theorem constructor_invalid_region_witness:
  "constructor example_env (example_config None) =
     Inl (custom_error ''NO_VALID_REGION_PROVIDED'' (JStr ''Please provide one of: \"eu\", \"na\" or \"fe\"''))
   \<and> constructor example_env (example_config (Some ''us'')) =
     Inl (custom_error ''NO_VALID_REGION_PROVIDED'' (JStr ''Please provide one of: \"eu\", \"na\" or \"fe\"''))
   \<and> constructor example_env ((example_config (Some ''eu''))\<lparr>cfg_credentials := JObj []\<rparr>) =
     Inl (custom_error ''CREDENTIALS_MISSING'' (JStr ''Could not find credentials''))"
  using constructor_invalid_region
          [of example_env "example_config None" _ example_credentials, THEN conjunct2]
        constructor_invalid_region
          [of example_env "example_config (Some ''us'')" _ example_credentials, THEN conjunct2]
        constructor_invalid_region
          [of example_env "(example_config (Some ''eu''))\<lparr>cfg_credentials := JObj []\<rparr>"
              "custom_error ''CREDENTIALS_MISSING'' (JStr ''Could not find credentials'')",
           THEN conjunct1]
  by (simp add: example_env_simps example_load_def example_config_def)

subsection \<open>Unknown operations\<close>

text \<open>
  What \<open>callAPI\<close> does when the operation is falsy or the lookup finds nothing: it fails
  with \<open>NO_OPERATION_GIVEN\<close> or \<open>OPERATION_NOT_FOUND\<close>, and the world is left as it was.
\<close>

lemma callAPI_lookup_fails:
  "(\<not> truthy_str (operation rp) \<longrightarrow>
      callAPI env rp w =
        Some (Inl (custom_error ''NO_OPERATION_GIVEN'' (JStr ''Please provide an operation to call'')), w))
   \<and> (truthy_str (operation rp) \<and> operations env (str_or_undefined (operation rp)) = None \<longrightarrow>
      callAPI env rp w =
        Some (Inl (custom_error ''OPERATION_NOT_FOUND''
                     (JStr (''No operation found: '' @ str_or_undefined (operation rp)))), w))"
  by (subst callAPI.simps, subst (2) callAPI.simps)
     (auto simp: callAPI_send_def validateOperation_def)

subsection \<open>Transfer: validation and feed content\<close>

text \<open>
  C6, as the claim states it, fails: details whose encryption standard is \<open>DES\<close> and
  that have no url are rejected by the first check of \<open>_validateEncryptionDetails\<close>, with
  \<open>DOWNLOAD_INFORMATION_MISSING\<close> and not with \<open>UNKNOWN_ENCRYPTION_STANDARD\<close>.
\<close>

theorem download_unknown_standard_counterexample:
  "download example_env (Some (example_details (Some ''DES'') None None)) example_download_options
      (example_world example_session []) =
     (Inl (custom_error ''DOWNLOAD_INFORMATION_MISSING'' (JStr ''Please provide encryptionDetails and url'')),
      example_world example_session [])
   \<and> error_code (custom_error ''DOWNLOAD_INFORMATION_MISSING'' (JStr ''Please provide encryptionDetails and url''))
       \<noteq> JStr ''UNKNOWN_ENCRYPTION_STANDARD''"
  by (simp add: download_def validateEncryptionDetails_def example_details_def example_encryption_def
                custom_error_def field_def)

text \<open>
  C6, amended. For details that have encryption details and whose standard is not \<open>AES\<close>:
  when the url is present \<open>download\<close> fails with \<open>UNKNOWN_ENCRYPTION_STANDARD\<close>, when it is
  absent with \<open>DOWNLOAD_INFORMATION_MISSING\<close>; in both cases the world is unchanged, so
  the failure comes before any network call.
\<close>

theorem download_unknown_standard:
  assumes "encryptionDetails d = Some ed" and "standard ed \<noteq> Some ''AES''"
  shows "(truthy_str (url d) \<longrightarrow>
            download env (Some d) opts w =
              (Inl (custom_error ''UNKNOWN_ENCRYPTION_STANDARD''
                      (JStr (''Cannot decrypt '' @ str_or_undefined (standard ed) @ '', expecting AES''))), w))
       \<and> (\<not> truthy_str (url d) \<longrightarrow>
            download env (Some d) opts w =
              (Inl (custom_error ''DOWNLOAD_INFORMATION_MISSING''
                      (JStr ''Please provide encryptionDetails and url'')), w))"
  using assms by (simp add: download_def validateEncryptionDetails_def)

theorem download_unknown_standard_witness:
  "download example_env (Some (example_details (Some ''DES'') (Some ''https://d.example/doc'') None))
      example_download_options (example_world example_session []) =
     (Inl (custom_error ''UNKNOWN_ENCRYPTION_STANDARD'' (JStr ''Cannot decrypt DES, expecting AES'')),
      example_world example_session [])"
  using download_unknown_standard
          [of "example_details (Some ''DES'') (Some ''https://d.example/doc'') None"
              "example_encryption (Some ''DES'')"
              example_env example_download_options "example_world example_session []"]
  by (simp add: example_details_def example_encryption_def)




subsection \<open>Token manager\<close>

text \<open>
  What the two refresh operations do to the instance: a failed one leaves it as it was, a
  successful \<open>refreshAccessToken\<close> stores a truthy token in one place, a successful
  \<open>refreshRoleCredentials\<close> stores an object as the role credentials.
\<close>

lemma request_session: "request r w = (x, w') \<Longrightarrow> session w' = session w"
  by (auto simp: request_def)

lemma refreshAccessToken_Inl:
  "refreshAccessToken env scp w = (Inl e, w') \<Longrightarrow> session w' = session w"
  by (auto simp: refreshAccessToken_def request_def split: sum.splits option.splits if_splits)

lemma refreshAccessToken_Inr:
  assumes "refreshAccessToken env scp w = (Inr u, w')"
  shows "\<exists>tok. truthy tok \<and>
           session w' = (if \<not> truthy_str scp then (session w)\<lparr>access_token := tok\<rparr>
                         else (session w)\<lparr>grantless_tokens :=
                                (grantless_tokens (session w))(str_or_undefined scp \<mapsto> tok)\<rparr>)"
  using assms
  by (auto simp: refreshAccessToken_def request_def split: sum.splits option.splits if_splits)


lemma refreshRoleCredentials_Inl:
  "refreshRoleCredentials env w = (Inl e, w') \<Longrightarrow> session w' = session w"
  by (auto simp: refreshRoleCredentials_def request_def Let_def split: sum.splits option.splits if_splits)

lemma refreshRoleCredentials_Inr:
  assumes "refreshRoleCredentials env w = (Inr u, w')"
  shows "\<exists>c. session w' = (session w)\<lparr>role_credentials := JObj c\<rparr>"
  using assms
  by (auto simp: refreshRoleCredentials_def request_def Let_def split: sum.splits option.splits if_splits)







subsection \<open>Orchestrator\<close>

text \<open>The concrete environment at work: its parser, one request sent, one token refreshed.\<close>

lemma example_parse_simps:
  "example_parse ''{\"payload\":{\"ok\":true}}'' = Some (JObj [(''payload'', JObj [(''ok'', JBool True)])])"
  "example_parse ''{\"errors\":[{\"code\":\"QuotaExceeded\"}]}'' =
     Some (JObj [(''errors'', JArr [JObj [(''code'', JStr ''QuotaExceeded'')]])])"
  "example_parse ''{\"errors\":[{\"code\":\"Unauthorized\",\"details\":\"The access token you provided has expired.\"}]}'' =
     Some (JObj [(''errors'', JArr [JObj [(''code'', JStr ''Unauthorized''),
               (''details'', JStr ''The access token you provided has expired.'')]])])"
  "example_parse ''{\"access_token\":\"Atza|fresh\"}'' = Some (JObj [(''access_token'', JStr ''Atza|fresh'')])"
  "example_parse ''{\"pagination\":{\"nextToken\":\"a\"},\"payload\":{\"nextToken\":\"b\"}}'' =
     Some (JObj [(''pagination'', JObj [(''nextToken'', JStr ''a'')]),
                 (''payload'', JObj [(''nextToken'', JStr ''b'')])])"
  "example_parse ''{\"pagination\":{\"nextToken\":\"a\"},\"payload\":{\"granularity\":\"Marketplace\"}}'' =
     Some (JObj [(''pagination'', JObj [(''nextToken'', JStr ''a'')]),
                 (''payload'', JObj [(''granularity'', JStr ''Marketplace'')])])"
  by (simp_all add: example_parse_def)

lemma example_send:
  assumes "rp = example_params (Some ''getOrders'') \<or> rp = example_expanded"
      and "session w = example_session\<lparr>access_token := JStr tok\<rparr>" and "tok \<noteq> []"
  shows "callAPI_send example_env rp w =
           (case replies w (n_requests (trace w)) of
              Inl e \<Rightarrow> (Inl e, w\<lparr>trace := trace w @ [Request (example_request tok)]\<rparr>)
            | Inr res \<Rightarrow> (Inr (example_expanded, res), w\<lparr>trace := trace w @ [Request (example_request tok)]\<rparr>))"
  using assms
  by (auto simp: callAPI_send_def validateOperation_def validateOperationAllowance_def
        validateAccessTokenAndRoleCredentials_def refresh_missing_def tokenExists_def
        example_env_simps example_params_def example_expanded_def example_session_def example_options_def
        request_def example_request_def Let_def split: sum.splits)

lemma example_refresh:
  assumes "session w = example_session"
      and "replies w (n_requests (trace w)) = respond 200 ''{\"access_token\":\"Atza|fresh\"}''"
  shows "refreshAccessToken example_env None w =
           (Inr (), w\<lparr>trace := trace w @ [Request example_token_request],
                      session := example_session\<lparr>access_token := JStr ''Atza|fresh''\<rparr>\<rparr>)"
  using assms
  by (simp add: refreshAccessToken_def constructRefreshAccessTokenBody_def request_def
        example_env_simps example_parse_simps example_session_def example_options_def
        respond_def example_token_request_def Let_def)

text \<open>A response without errors: the value returned.\<close>

lemma callAPI_success:
  assumes send: "callAPI_send env rp w = (Inr (rp1, res), w1)"
      and nd: "\<not> (statusCode res = 204 \<and> rp_method rp1 = Some ''DELETE'')"
      and parse: "JSON_parse env (filter (\<lambda>c. c \<noteq> CHR 0x0A) (res_body res)) = Some json_res"
      and errs: "get_prop json_res ''errors'' = Inr errors" "\<not> truthy errors"
  shows "callAPI env rp w =
           Some (Inr (if truthy (field json_res ''pagination'') \<and> truthy (field json_res ''payload'')
                      then Object_assign (field json_res ''pagination'') (field json_res ''payload'')
                      else if truthy (field json_res ''payload'') then Val (field json_res ''payload'')
                      else Val json_res), w1)"
  using assms by (subst callAPI.simps) auto

text \<open>A run of the concrete environment with one retry after a token refresh.\<close>

lemma example_retry_run:
  "callAPI example_env (example_params (Some ''getOrders''))
     (example_world example_session
        [respond 403 ''{\"errors\":[{\"code\":\"Unauthorized\",\"details\":\"The access token you provided has expired.\"}]}'',
         respond 200 ''{\"access_token\":\"Atza|fresh\"}'',
         respond 200 ''{\"payload\":{\"ok\":true}}'']) =
   Some (Inr (Val (JObj [(''ok'', JBool True)])),
         (example_world example_session
            [respond 403 ''{\"errors\":[{\"code\":\"Unauthorized\",\"details\":\"The access token you provided has expired.\"}]}'',
             respond 200 ''{\"access_token\":\"Atza|fresh\"}'',
             respond 200 ''{\"payload\":{\"ok\":true}}''])
         \<lparr>trace := [Request (example_request ''Atza|stale''), Request example_token_request,
                     Request (example_request ''Atza|fresh'')],
           session := example_session\<lparr>access_token := JStr ''Atza|fresh''\<rparr>\<rparr>)"
proof -
  let ?w = "example_world example_session
        [respond 403 ''{\"errors\":[{\"code\":\"Unauthorized\",\"details\":\"The access token you provided has expired.\"}]}'',
         respond 200 ''{\"access_token\":\"Atza|fresh\"}'',
         respond 200 ''{\"payload\":{\"ok\":true}}'']"
  let ?r1 = "\<lparr>statusCode = 403,
              res_body = ''{\"errors\":[{\"code\":\"Unauthorized\",\"details\":\"The access token you provided has expired.\"}]}'',
              res_headers = [], chunks = []\<rparr>"
  let ?r3 = "\<lparr>statusCode = 200, res_body = ''{\"payload\":{\"ok\":true}}'',
              res_headers = [], chunks = []\<rparr>"
  let ?w1 = "?w\<lparr>trace := [Request (example_request ''Atza|stale'')]\<rparr>"
  let ?w2 = "?w\<lparr>trace := [Request (example_request ''Atza|stale''), Request example_token_request],
                session := example_session\<lparr>access_token := JStr ''Atza|fresh''\<rparr>\<rparr>"
  let ?w3 = "?w\<lparr>trace := [Request (example_request ''Atza|stale''), Request example_token_request,
                     Request (example_request ''Atza|fresh'')],
                session := example_session\<lparr>access_token := JStr ''Atza|fresh''\<rparr>\<rparr>"
  have s1: "callAPI_send example_env (example_params (Some ''getOrders'')) ?w = (Inr (example_expanded, ?r1), ?w1)"
    by (subst example_send [where tok = "''Atza|stale''"])
       (simp_all add: example_world_def example_session_def respond_def n_requests_def)
  have rf: "refreshAccessToken example_env None ?w1 = (Inr (), ?w2)"
    by (subst example_refresh) (simp_all add: example_world_def n_requests_def)
  have s2: "callAPI_send example_env example_expanded ?w2 = (Inr (example_expanded, ?r3), ?w3)"
    by (subst example_send [where tok = "''Atza|fresh''"])
       (simp_all add: example_world_def example_session_def respond_def n_requests_def)
  have last: "callAPI example_env example_expanded ?w2 = Some (Inr (Val (JObj [(''ok'', JBool True)])), ?w3)"
    using callAPI_success [OF s2, of "JObj [(''payload'', JObj [(''ok'', JBool True)])]" JUndefined]
    by (simp add: example_env_simps example_parse_simps field_def)
  have sc: "scope example_expanded = None"
    by (simp add: example_expanded_def example_params_def)
  have au: "auto_request_tokens (options (session ?w))"
    by (simp add: example_world_def example_session_def example_options_def)
  show ?thesis
    by (subst callAPI.simps)
       (simp add: s1 rf last sc au Let_def example_env_simps example_parse_simps field_def
                  string_of_nat.simps digit_char_def access_token_expired_def line_terminator_def)
qed

text \<open>A refreshed token is the \<open>access_token\<close> of the reply of the token endpoint.\<close>

lemma refreshAccessToken_value:
  assumes "refreshAccessToken env scp w = (Inr u, w')"
  shows "\<exists>tres tjson. replies w (n_requests (trace w)) = Inr tres
           \<and> JSON_parse env (res_body tres) = Some tjson
           \<and> truthy (field tjson ''access_token'')
           \<and> session w' = (if \<not> truthy_str scp
                            then (session w)\<lparr>access_token := field tjson ''access_token''\<rparr>
                            else (session w)\<lparr>grantless_tokens := (grantless_tokens (session w))
                                   (str_or_undefined scp \<mapsto> field tjson ''access_token'')\<rparr>)"
  using assms
  by (auto simp: refreshAccessToken_def request_def field_def
           split: sum.split_asm option.split_asm if_split_asm)

text \<open>An access token that is present is not written by the first half of a call.\<close>

lemma refresh_missing_access_token:
  assumes "truthy (access_token (session w))" and "refresh_missing env scp w = (r, w')"
  shows "access_token (session w') = access_token (session w)"
proof -
  obtain r1 w1 where t: "(if \<not> tokenExists (session w) scp
            then refreshAccessToken env scp w else (Inr (), w)) = (r1, w1)"
    by (cases "if \<not> tokenExists (session w) scp then refreshAccessToken env scp w else (Inr (), w)")
  have a: "access_token (session w1) = access_token (session w)"
  proof (cases "tokenExists (session w) scp")
    case True
    then show ?thesis using t by simp
  next
    case False
    then have sc: "truthy_str scp" using assms(1) by (auto simp: tokenExists_def)
    from False t have rt: "refreshAccessToken env scp w = (r1, w1)" by simp
    show ?thesis
    proof (cases r1)
      case (Inl e)
      then show ?thesis using rt refreshAccessToken_Inl [of env scp w e w1] by simp
    next
      case (Inr u)
      then show ?thesis using rt sc refreshAccessToken_Inr [of env scp w u w1] by auto
    qed
  qed
  show ?thesis
  proof (cases r1)
    case (Inl e)
    then show ?thesis using assms(2) t a by (simp add: refresh_missing_def)
  next
    case (Inr u)
    show ?thesis
    proof (cases "truthy (role_credentials (session w1))")
      case True
      then show ?thesis using assms(2) t a Inr by (simp add: refresh_missing_def)
    next
      case False
      then have rr: "refreshRoleCredentials env w1 = (r, w')"
        using assms(2) t Inr by (simp add: refresh_missing_def)
      show ?thesis
      proof (cases r)
        case (Inl e)
        then show ?thesis using rr a refreshRoleCredentials_Inl [of env w1 e w'] by simp
      next
        case (Inr u2)
        then show ?thesis using rr a refreshRoleCredentials_Inr [of env w1 u2 w'] by auto
      qed
    qed
  qed
qed

lemma callAPI_send_access_token:
  assumes "truthy (access_token (session w))" and "callAPI_send env rp w = (x, w')"
  shows "access_token (session w') = access_token (session w)"
  using assms
  by (auto simp: callAPI_send_def validateAccessTokenAndRoleCredentials_def Let_def
           split: sum.splits prod.splits option.splits if_splits
           dest!: request_session dest: refresh_missing_access_token)

text \<open>
  C4. When the response of an invocation has status 429, its first error has the code
  \<open>QuotaExceeded\<close> and \<open>auto_request_throttled\<close> is set, \<open>callAPI\<close> awaits a timer of
  \<open>restore_rate * 1000\<close> milliseconds, the restore rate of the operation in seconds, and
  is then \<open>callAPI\<close> on the same (expanded) parameters. In particular, when the response
  to that retry has status 200 and a body with a payload, no errors and no pagination,
  the first invocation returns that payload.
\<close>

theorem callAPI_throttled_retry:
  assumes send: "callAPI_send env rp w = (Inr (rp1, res), w1)"
      and st: "statusCode res = 429"
      and parse: "JSON_parse env (filter (\<lambda>c. c \<noteq> CHR 0x0A) (res_body res)) = Some json_res"
      and errs: "get_prop json_res ''errors'' = Inr errors" "truthy errors"
      and code: "get_prop (field errors ''0'') ''code'' = Inr (JStr ''QuotaExceeded'')"
      and auto: "auto_request_throttled (options (session w1))"
  shows "callAPI env rp w = callAPI env rp1 (w1\<lparr>trace := trace w1 @ [SetTimeout (restore_rate rp1 * 1000)]\<rparr>)
     \<and> (callAPI_send env rp1 (w1\<lparr>trace := trace w1 @ [SetTimeout (restore_rate rp1 * 1000)]\<rparr>) = (Inr (rp2, res2), w2)
          \<and> statusCode res2 = 200
          \<and> JSON_parse env (filter (\<lambda>c. c \<noteq> CHR 0x0A) (res_body res2)) = Some json2
          \<and> get_prop json2 ''errors'' = Inr errors2 \<and> \<not> truthy errors2
          \<and> \<not> truthy (field json2 ''pagination'') \<and> truthy (field json2 ''payload'')
        \<longrightarrow> callAPI env rp w = Some (Inr (Val (field json2 ''payload'')), w2))"
proof (intro conjI impI)
  show retry: "callAPI env rp w = callAPI env rp1 (w1\<lparr>trace := trace w1 @ [SetTimeout (restore_rate rp1 * 1000)]\<rparr>)"
    using assms by (subst callAPI.simps) (simp add: wait_def)
  assume h: "callAPI_send env rp1 (w1\<lparr>trace := trace w1 @ [SetTimeout (restore_rate rp1 * 1000)]\<rparr>) = (Inr (rp2, res2), w2)
          \<and> statusCode res2 = 200
          \<and> JSON_parse env (filter (\<lambda>c. c \<noteq> CHR 0x0A) (res_body res2)) = Some json2
          \<and> get_prop json2 ''errors'' = Inr errors2 \<and> \<not> truthy errors2
          \<and> \<not> truthy (field json2 ''pagination'') \<and> truthy (field json2 ''payload'')"
  then have "callAPI env rp1 (w1\<lparr>trace := trace w1 @ [SetTimeout (restore_rate rp1 * 1000)]\<rparr>) =
               Some (Inr (Val (field json2 ''payload'')), w2)"
    using callAPI_success [of env rp1 _ rp2 res2 w2 json2 errors2] by simp
  then show "callAPI env rp w = Some (Inr (Val (field json2 ''payload'')), w2)"
    using retry by simp
qed

theorem callAPI_throttled_retry_witness:
  "callAPI example_env (example_params (Some ''getOrders''))
     (example_world example_session
        [respond 429 ''{\"errors\":[{\"code\":\"QuotaExceeded\"}]}'',
         respond 200 ''{\"payload\":{\"ok\":true}}'']) =
   Some (Inr (Val (JObj [(''ok'', JBool True)])),
         (example_world example_session
            [respond 429 ''{\"errors\":[{\"code\":\"QuotaExceeded\"}]}'',
             respond 200 ''{\"payload\":{\"ok\":true}}''])
         \<lparr>trace := [Request (example_request ''Atza|stale''), SetTimeout 60000,
                     Request (example_request ''Atza|stale'')]\<rparr>)"
proof -
  let ?w = "example_world example_session
        [respond 429 ''{\"errors\":[{\"code\":\"QuotaExceeded\"}]}'',
         respond 200 ''{\"payload\":{\"ok\":true}}'']"
  let ?r1 = "\<lparr>statusCode = 429, res_body = ''{\"errors\":[{\"code\":\"QuotaExceeded\"}]}'',
              res_headers = [], chunks = []\<rparr>"
  let ?r2 = "\<lparr>statusCode = 200, res_body = ''{\"payload\":{\"ok\":true}}'',
              res_headers = [], chunks = []\<rparr>"
  let ?w1 = "?w\<lparr>trace := [Request (example_request ''Atza|stale'')]\<rparr>"
  let ?w2 = "?w\<lparr>trace := [Request (example_request ''Atza|stale''), SetTimeout 60000,
                     Request (example_request ''Atza|stale'')]\<rparr>"
  have s1: "callAPI_send example_env (example_params (Some ''getOrders'')) ?w = (Inr (example_expanded, ?r1), ?w1)"
    by (subst example_send [where tok = "''Atza|stale''"])
       (simp_all add: example_world_def example_session_def respond_def n_requests_def)
  have s2: "callAPI_send example_env example_expanded
              (?w1\<lparr>trace := trace ?w1 @ [SetTimeout (restore_rate example_expanded * 1000)]\<rparr>) =
            (Inr (example_expanded, ?r2), ?w2)"
    by (subst example_send [where tok = "''Atza|stale''"])
       (simp_all add: example_world_def example_session_def respond_def n_requests_def example_expanded_def)
  show ?thesis
    using callAPI_throttled_retry [of example_env "example_params (Some ''getOrders'')" ?w example_expanded ?r1 ?w1
               "JObj [(''errors'', JArr [JObj [(''code'', JStr ''QuotaExceeded'')]])]"
               "JArr [JObj [(''code'', JStr ''QuotaExceeded'')]]"
               example_expanded ?r2 ?w2
               "JObj [(''payload'', JObj [(''ok'', JBool True)])]" JUndefined, OF s1, THEN conjunct2]
          s2
    by (simp add: example_env_simps example_parse_simps field_def example_world_def string_of_nat.simps digit_char_def
                  example_session_def example_options_def)
qed

text \<open>
  C2. When the response of an invocation has status 403, its first error has the code
  \<open>Unauthorized\<close> and \<open>details\<close> matching \<open>/access token.*expired/\<close>, and
  \<open>auto_request_tokens\<close> is set, \<open>callAPI\<close> runs \<open>refreshAccessToken\<close> with the scope of
  the operation and, when that returns, is \<open>callAPI\<close> on the same (expanded) parameters.
  In particular, for an operation without scope, when the refresh returns and the response
  to the retry has status 200 and a body with a payload, no errors and no pagination, the
  first invocation returns that payload, and the access token of the instance is the
  \<open>access_token\<close> of the token endpoint's reply.
\<close>

theorem callAPI_access_token_retry:
  assumes send: "callAPI_send env rp w = (Inr (rp1, res), w1)"
      and st: "statusCode res = 403"
      and parse: "JSON_parse env (filter (\<lambda>c. c \<noteq> CHR 0x0A) (res_body res)) = Some json_res"
      and errs: "get_prop json_res ''errors'' = Inr errors" "truthy errors"
      and code: "get_prop (field errors ''0'') ''code'' = Inr (JStr ''Unauthorized'')"
      and auto: "auto_request_tokens (options (session w1))"
      and msg: "access_token_expired (field (field errors ''0'') ''details'')"
  shows "callAPI env rp w =
           (case refreshAccessToken env (scope rp1) w1 of
              (Inl e, w2) \<Rightarrow> Some (Inl e, w2)
            | (Inr u, w2) \<Rightarrow> callAPI env rp1 w2)
     \<and> (\<not> truthy_str (scope rp1)
          \<and> refreshAccessToken env (scope rp1) w1 = (Inr u, w2)
          \<and> callAPI_send env rp1 w2 = (Inr (rp2, res2), w3)
          \<and> statusCode res2 = 200
          \<and> JSON_parse env (filter (\<lambda>c. c \<noteq> CHR 0x0A) (res_body res2)) = Some json2
          \<and> get_prop json2 ''errors'' = Inr errors2 \<and> \<not> truthy errors2
          \<and> \<not> truthy (field json2 ''pagination'') \<and> truthy (field json2 ''payload'')
        \<longrightarrow> callAPI env rp w = Some (Inr (Val (field json2 ''payload'')), w3)
            \<and> (\<exists>tres tjson. replies w1 (n_requests (trace w1)) = Inr tres
                  \<and> JSON_parse env (res_body tres) = Some tjson
                  \<and> access_token (session w3) = field tjson ''access_token''))"
proof (intro conjI impI)
  show retry: "callAPI env rp w =
           (case refreshAccessToken env (scope rp1) w1 of
              (Inl e, w2) \<Rightarrow> Some (Inl e, w2)
            | (Inr u, w2) \<Rightarrow> callAPI env rp1 w2)"
    using assms by (subst callAPI.simps) simp
  assume h: "\<not> truthy_str (scope rp1)
          \<and> refreshAccessToken env (scope rp1) w1 = (Inr u, w2)
          \<and> callAPI_send env rp1 w2 = (Inr (rp2, res2), w3)
          \<and> statusCode res2 = 200
          \<and> JSON_parse env (filter (\<lambda>c. c \<noteq> CHR 0x0A) (res_body res2)) = Some json2
          \<and> get_prop json2 ''errors'' = Inr errors2 \<and> \<not> truthy errors2
          \<and> \<not> truthy (field json2 ''pagination'') \<and> truthy (field json2 ''payload'')"
  then have "callAPI env rp1 w2 = Some (Inr (Val (field json2 ''payload'')), w3)"
    using callAPI_success [of env rp1 w2 rp2 res2 w3 json2 errors2] by simp
  then show "callAPI env rp w = Some (Inr (Val (field json2 ''payload'')), w3)"
    using retry h by simp
  from h obtain tres tjson where t: "replies w1 (n_requests (trace w1)) = Inr tres"
      "JSON_parse env (res_body tres) = Some tjson" "truthy (field tjson ''access_token'')"
      "session w2 = (session w1)\<lparr>access_token := field tjson ''access_token''\<rparr>"
    using refreshAccessToken_value [of env "scope rp1" w1 u w2] by auto
  then have "access_token (session w3) = field tjson ''access_token''"
    using h callAPI_send_access_token [of w2 env rp1 "Inr (rp2, res2)" w3] by simp
  then show "\<exists>tres tjson. replies w1 (n_requests (trace w1)) = Inr tres
                  \<and> JSON_parse env (res_body tres) = Some tjson
                  \<and> access_token (session w3) = field tjson ''access_token''"
    using t by blast
qed

theorem callAPI_access_token_retry_witness:
  "callAPI example_env (example_params (Some ''getOrders''))
     (example_world example_session
        [respond 403 ''{\"errors\":[{\"code\":\"Unauthorized\",\"details\":\"The access token you provided has expired.\"}]}'',
         respond 200 ''{\"access_token\":\"Atza|fresh\"}'',
         respond 200 ''{\"payload\":{\"ok\":true}}'']) =
   Some (Inr (Val (JObj [(''ok'', JBool True)])),
         (example_world example_session
            [respond 403 ''{\"errors\":[{\"code\":\"Unauthorized\",\"details\":\"The access token you provided has expired.\"}]}'',
             respond 200 ''{\"access_token\":\"Atza|fresh\"}'',
             respond 200 ''{\"payload\":{\"ok\":true}}''])
         \<lparr>trace := [Request (example_request ''Atza|stale''), Request example_token_request,
                     Request (example_request ''Atza|fresh'')],
           session := example_session\<lparr>access_token := JStr ''Atza|fresh''\<rparr>\<rparr>)"
proof -
  let ?w = "example_world example_session
        [respond 403 ''{\"errors\":[{\"code\":\"Unauthorized\",\"details\":\"The access token you provided has expired.\"}]}'',
         respond 200 ''{\"access_token\":\"Atza|fresh\"}'',
         respond 200 ''{\"payload\":{\"ok\":true}}'']"
  let ?r1 = "\<lparr>statusCode = 403,
              res_body = ''{\"errors\":[{\"code\":\"Unauthorized\",\"details\":\"The access token you provided has expired.\"}]}'',
              res_headers = [], chunks = []\<rparr>"
  let ?r3 = "\<lparr>statusCode = 200, res_body = ''{\"payload\":{\"ok\":true}}'',
              res_headers = [], chunks = []\<rparr>"
  let ?w1 = "?w\<lparr>trace := [Request (example_request ''Atza|stale'')]\<rparr>"
  let ?w2 = "?w\<lparr>trace := [Request (example_request ''Atza|stale''), Request example_token_request],
                session := example_session\<lparr>access_token := JStr ''Atza|fresh''\<rparr>\<rparr>"
  let ?w3 = "?w\<lparr>trace := [Request (example_request ''Atza|stale''), Request example_token_request,
                     Request (example_request ''Atza|fresh'')],
                session := example_session\<lparr>access_token := JStr ''Atza|fresh''\<rparr>\<rparr>"
  have s1: "callAPI_send example_env (example_params (Some ''getOrders'')) ?w = (Inr (example_expanded, ?r1), ?w1)"
    by (subst example_send [where tok = "''Atza|stale''"])
       (simp_all add: example_world_def example_session_def respond_def n_requests_def)
  have rf: "refreshAccessToken example_env None ?w1 = (Inr (), ?w2)"
    by (subst example_refresh) (simp_all add: example_world_def n_requests_def)
  have s2: "callAPI_send example_env example_expanded ?w2 = (Inr (example_expanded, ?r3), ?w3)"
    by (subst example_send [where tok = "''Atza|fresh''"])
       (simp_all add: example_world_def example_session_def respond_def n_requests_def)
  have sc: "scope example_expanded = None"
    by (simp add: example_expanded_def example_params_def)
  show ?thesis
    using callAPI_access_token_retry [of example_env "example_params (Some ''getOrders'')" ?w example_expanded ?r1 ?w1
               "JObj [(''errors'', JArr [JObj [(''code'', JStr ''Unauthorized''),
                   (''details'', JStr ''The access token you provided has expired.'')]])]"
               "JArr [JObj [(''code'', JStr ''Unauthorized''),
                   (''details'', JStr ''The access token you provided has expired.'')]]"
               "()" ?w2 example_expanded ?r3 ?w3
               "JObj [(''payload'', JObj [(''ok'', JBool True)])]" JUndefined, OF s1, THEN conjunct2]
          rf s2 sc
    by (simp add: example_env_simps example_parse_simps field_def example_world_def
                  example_session_def example_options_def string_of_nat.simps digit_char_def
                  access_token_expired_def line_terminator_def)
qed

text \<open>
  C7. The claim holds of the code only for the names on which \<open>operations[operation]\<close>
  is falsy. The test of \<open>_validateOperation\<close> reads the catalog with its prototype chain:
  \<open>constructor\<close> is no entry of the catalog, yet the lookup finds \<open>Object\<close>, the check
  passes, and \<open>callAPI\<close> signs and sends a request instead of failing with
  \<open>OPERATION_NOT_FOUND\<close>.
\<close>

theorem callAPI_unregistered_constructor:
  "map_of example_catalog ''constructor'' = None
   \<and> callAPI example_env (example_params (Some ''constructor''))
        (example_world example_session [respond 200 ''{\"payload\":{\"ok\":true}}'']) =
      Some (Inr (Val (JObj [(''ok'', JBool True)])),
            (example_world example_session [respond 200 ''{\"payload\":{\"ok\":true}}''])
            \<lparr>trace := [Request \<lparr>req_method = None,
                                 req_url = ''https://sellingpartnerapi-eu.amazon.comundefined'',
                                 req_headers = [(''x-amz-access-token'', ''Atza|stale'')],
                                 req_body = None\<rparr>]\<rparr>)"
proof -
  let ?w = "example_world example_session [respond 200 ''{\"payload\":{\"ok\":true}}'']"
  let ?r = "\<lparr>statusCode = 200, res_body = ''{\"payload\":{\"ok\":true}}'',
             res_headers = [], chunks = []\<rparr>"
  let ?w1 = "?w\<lparr>trace := [Request \<lparr>req_method = None,
                                 req_url = ''https://sellingpartnerapi-eu.amazon.comundefined'',
                                 req_headers = [(''x-amz-access-token'', ''Atza|stale'')],
                                 req_body = None\<rparr>]\<rparr>"
  have s1: "callAPI_send example_env (example_params (Some ''constructor'')) ?w =
              (Inr (example_params (Some ''constructor''), ?r), ?w1)"
    by (simp add: callAPI_send_def validateOperation_def validateOperationAllowance_def
          validateAccessTokenAndRoleCredentials_def refresh_missing_def tokenExists_def
          example_env_simps example_params_def example_session_def example_options_def
          example_world_def respond_def n_requests_def request_def Let_def)
  have run: "callAPI example_env (example_params (Some ''constructor'')) ?w =
               Some (Inr (Val (JObj [(''ok'', JBool True)])), ?w1)"
    using callAPI_success [OF s1, of "JObj [(''payload'', JObj [(''ok'', JBool True)])]" JUndefined]
    by (simp add: example_env_simps example_parse_simps field_def)
  show ?thesis
    using run by (simp add: example_catalog_def)
qed

text \<open>
  C1. The claim, like the comment above line 372, has the pagination included with the
  result. The code calls \<open>Object.assign(json_res.pagination, json_res.payload)\<close>, with the
  arguments in the other order: the payload is copied over the pagination object, which
  is returned. For the body \<open>{"pagination":{"nextToken":"a"},"payload":{"nextToken":"b"}}\<close>
  the value returned has \<open>nextToken\<close> \<open>b\<close>, and the field \<open>nextToken: "a"\<close> of the
  pagination section is lost.
\<close>

theorem callAPI_pagination_overwritten:
  "callAPI example_env (example_params (Some ''getOrders''))
     (example_world example_session
        [respond 200 ''{\"pagination\":{\"nextToken\":\"a\"},\"payload\":{\"nextToken\":\"b\"}}'']) =
   Some (Inr (Val (JObj [(''nextToken'', JStr ''b'')])),
         (example_world example_session
            [respond 200 ''{\"pagination\":{\"nextToken\":\"a\"},\"payload\":{\"nextToken\":\"b\"}}''])
         \<lparr>trace := [Request (example_request ''Atza|stale'')]\<rparr>)
   \<and> get_prop (JObj [(''nextToken'', JStr ''b'')]) ''nextToken'' \<noteq> Inr (JStr ''a'')"
proof -
  let ?w = "example_world example_session
        [respond 200 ''{\"pagination\":{\"nextToken\":\"a\"},\"payload\":{\"nextToken\":\"b\"}}'']"
  let ?r = "\<lparr>statusCode = 200,
             res_body = ''{\"pagination\":{\"nextToken\":\"a\"},\"payload\":{\"nextToken\":\"b\"}}'',
             res_headers = [], chunks = []\<rparr>"
  let ?w1 = "?w\<lparr>trace := [Request (example_request ''Atza|stale'')]\<rparr>"
  have s1: "callAPI_send example_env (example_params (Some ''getOrders'')) ?w = (Inr (example_expanded, ?r), ?w1)"
    by (subst example_send [where tok = "''Atza|stale''"])
       (simp_all add: example_world_def example_session_def respond_def n_requests_def)
  have ix: "array_index ''nextToken'' = None"
    by (simp add: array_index_def digit_value_def)
  show ?thesis
    using callAPI_success [OF s1, of "JObj [(''pagination'', JObj [(''nextToken'', JStr ''a'')]),
                 (''payload'', JObj [(''nextToken'', JStr ''b'')])]" JUndefined]
    by (simp add: example_env_simps example_parse_simps field_def assign_props_def property_order_def
                  set_prop_def replaces_prototype_def List.map_filter_simps
                  AList.clearjunk.simps AList.delete_eq ix)
qed

subsection \<open>Who writes the instance\<close>

text \<open>
  \<open>refreshed\<close> is transitive, and each part of \<open>callAPI\<close> stays within it: the refresh
  of what is missing, the check built on it, the first half of the call, and, by induction
  on the retries, \<open>callAPI\<close> itself.
\<close>

lemma effects_only_refl: "effects_only w w"
  by (simp add: effects_only_def)

lemma request_effects: "request r w = (x, w') \<Longrightarrow> effects_only w w'"
  by (auto simp: request_def effects_only_def)

lemma wait_effects: "effects_only w (wait rr w)"
  by (simp add: wait_def effects_only_def)

lemma refreshed_trans:
  assumes "refreshed env w1 w2" shows "refreshed env w0 w1 \<Longrightarrow> refreshed env w0 w2"
  using assms
  by (induction rule: refreshed.induct) (auto intro: refreshed.intros)

lemma refresh_missing_refreshed:
  assumes "refresh_missing env scp w = (r, w')"
  shows "refreshed env w w'"
proof -
  obtain r1 w1 where t: "(if \<not> tokenExists (session w) scp
            then refreshAccessToken env scp w else (Inr (), w)) = (r1, w1)"
    by (cases "if \<not> tokenExists (session w) scp then refreshAccessToken env scp w else (Inr (), w)")
  have a: "refreshed env w w1"
    using t refreshed.token [OF refreshed.same [OF effects_only_refl, of env w]]
    by (auto split: if_splits intro: refreshed.same effects_only_refl)
  show ?thesis
    using assms t a
    by (auto simp: refresh_missing_def split: if_splits sum.splits intro: refreshed.role)
qed

lemma validate_refreshed:
  "validateAccessTokenAndRoleCredentials env scp w = (r, w') \<Longrightarrow> refreshed env w w'"
  by (auto simp: validateAccessTokenAndRoleCredentials_def split: if_splits sum.splits prod.splits
           intro: refreshed.same effects_only_refl refresh_missing_refreshed)

lemma callAPI_send_refreshed:
  "callAPI_send env rp w = (x, w') \<Longrightarrow> refreshed env w w'"
  by (auto simp: callAPI_send_def Let_def split: if_splits sum.splits prod.splits option.splits
           intro: refreshed.same refreshed.frame effects_only_refl
           dest!: validate_refreshed request_effects)

lemma callAPI_refreshed: "callAPI env rp w = Some y \<Longrightarrow> refreshed env w (snd y)"
proof (induct rule: callAPI.raw_induct [rotated 1, consumes 1, case_names step])
  case (step callAPI' env rp w y)
  obtain x w1 where s: "callAPI_send env rp w = (x, w1)" by (cases "callAPI_send env rp w")
  have r1: "refreshed env w w1" using callAPI_send_refreshed[OF s] .
  have tok: "\<And>scp r w2. refreshAccessToken env scp w1 = (r, w2) \<Longrightarrow> refreshed env w w2"
    using r1 by (rule refreshed.token)
  have rol: "\<And>r w2. refreshRoleCredentials env w1 = (r, w2) \<Longrightarrow> refreshed env w w2"
    using r1 by (rule refreshed.role)
  have wt: "\<And>rr. refreshed env w (wait rr w1)"
    using r1 by (rule refreshed.frame) (rule wait_effects)
  have rec: "\<And>rp' w2 y. refreshed env w w2 \<Longrightarrow> callAPI' env rp' w2 = Some y \<Longrightarrow> refreshed env w (snd y)"
    using step(1) refreshed_trans by blast
  show ?case using step(2) s r1
    by (auto split: sum.splits prod.splits option.splits if_splits simp: Let_def
             dest: tok rol rec[OF wt] intro: rec)
qed

text \<open>The transfers: the projection to the instance commutes with every branch.\<close>

lemma case_sum_const: "(case x of Inl e \<Rightarrow> c | Inr y \<Rightarrow> c) = c"
  by (cases x) simp_all

lemma case_option_const: "(case x of None \<Rightarrow> c | Some y \<Rightarrow> c) = c"
  by (cases x) simp_all

lemmas session_snd_distrib =
  sum.case_distrib [of "\<lambda>x. session (snd x)"]
  option.case_distrib [of "\<lambda>x. session (snd x)"]
  if_distrib [of "\<lambda>x. session (snd x)"]

lemma download_session: "session (snd (download env dopt opts w)) = session w"
  by (simp add: download_def saveFile_def request_def Let_def split_beta session_snd_distrib
                case_sum_const case_option_const
           cong: sum.case_cong prod.case_cong option.case_cong if_cong)

lemma upload_session: "session (snd (upload env dopt fopt w)) = session w"
  by (simp add: upload_def readFile_def request_def Let_def split_beta session_snd_distrib
                case_sum_const case_option_const
           cong: sum.case_cong prod.case_cong option.case_cong if_cong)

text \<open>
  C8. Only the two refresh operations write the token and credential fields of the
  instance. A \<open>refreshAccessToken\<close> that returns has written one token field, the entry
  of the scope when there is a scope and the access token otherwise, and nothing else; one
  that fails has written nothing. A \<open>refreshRoleCredentials\<close> that returns has written
  the role credentials and nothing else; one that fails has written nothing. \<open>download\<close>
  and \<open>upload\<close> leave the instance as it was, and the world after \<open>callAPI\<close> is reached
  from the world before by steps that only add effects to the trace and by runs of the two
  refresh operations.
\<close>

theorem session_written_by_refresh_only:
  "(refreshAccessToken env scp w = (Inr u, w') \<longrightarrow>
      (\<exists>tok. session w' =
         (if \<not> truthy_str scp then (session w)\<lparr>access_token := tok\<rparr>
          else (session w)\<lparr>grantless_tokens := (grantless_tokens (session w))(str_or_undefined scp \<mapsto> tok)\<rparr>)))
   \<and> (refreshAccessToken env scp w = (Inl e, w') \<longrightarrow> session w' = session w)
   \<and> (refreshRoleCredentials env w = (Inr u, w') \<longrightarrow>
      (\<exists>c. session w' = (session w)\<lparr>role_credentials := JObj c\<rparr>))
   \<and> (refreshRoleCredentials env w = (Inl e, w') \<longrightarrow> session w' = session w)
   \<and> session (snd (download env dopt opts w)) = session w
   \<and> session (snd (upload env dopt fopt w)) = session w
   \<and> (callAPI env rp w = Some (out, w') \<longrightarrow> refreshed env w w')"
proof (intro conjI impI)
  assume "refreshAccessToken env scp w = (Inr u, w')"
  from refreshAccessToken_Inr [OF this]
  show "\<exists>tok. session w' =
         (if \<not> truthy_str scp then (session w)\<lparr>access_token := tok\<rparr>
          else (session w)\<lparr>grantless_tokens := (grantless_tokens (session w))(str_or_undefined scp \<mapsto> tok)\<rparr>)"
    by blast
next
  assume "refreshAccessToken env scp w = (Inl e, w')"
  then show "session w' = session w" by (rule refreshAccessToken_Inl)
next
  assume "refreshRoleCredentials env w = (Inr u, w')"
  then show "\<exists>c. session w' = (session w)\<lparr>role_credentials := JObj c\<rparr>"
    by (rule refreshRoleCredentials_Inr)
next
  assume "refreshRoleCredentials env w = (Inl e, w')"
  then show "session w' = session w" by (rule refreshRoleCredentials_Inl)
next
  show "session (snd (download env dopt opts w)) = session w" by (rule download_session)
next
  show "session (snd (upload env dopt fopt w)) = session w" by (rule upload_session)
next
  assume "callAPI env rp w = Some (out, w')"
  from callAPI_refreshed [OF this] show "refreshed env w w'" by simp
qed

theorem session_written_by_refresh_only_witness:
  "refreshed example_env
     (example_world example_session
        [respond 403 ''{\"errors\":[{\"code\":\"Unauthorized\",\"details\":\"The access token you provided has expired.\"}]}'',
         respond 200 ''{\"access_token\":\"Atza|fresh\"}'',
         respond 200 ''{\"payload\":{\"ok\":true}}''])
     ((example_world example_session
        [respond 403 ''{\"errors\":[{\"code\":\"Unauthorized\",\"details\":\"The access token you provided has expired.\"}]}'',
         respond 200 ''{\"access_token\":\"Atza|fresh\"}'',
         respond 200 ''{\"payload\":{\"ok\":true}}''])
      \<lparr>trace := [Request (example_request ''Atza|stale''), Request example_token_request,
                  Request (example_request ''Atza|fresh'')],
        session := example_session\<lparr>access_token := JStr ''Atza|fresh''\<rparr>\<rparr>)
   \<and> (\<exists>tok. session (snd (refreshAccessToken example_env None
                   (example_world example_session [respond 200 ''{\"access_token\":\"Atza|fresh\"}'']))) =
               example_session\<lparr>access_token := tok\<rparr>)"
proof -
  let ?v = "example_world example_session [respond 200 ''{\"access_token\":\"Atza|fresh\"}'']"
  let ?v1 = "?v\<lparr>trace := [Request example_token_request],
                session := example_session\<lparr>access_token := JStr ''Atza|fresh''\<rparr>\<rparr>"
  have rf: "refreshAccessToken example_env None ?v = (Inr (), ?v1)"
    by (subst example_refresh) (simp_all add: example_world_def n_requests_def)
  have a: "\<exists>tok. session (snd (refreshAccessToken example_env None ?v)) = example_session\<lparr>access_token := tok\<rparr>"
    using session_written_by_refresh_only [of example_env None ?v "()" ?v1, THEN conjunct1] rf
    by (simp add: example_world_def)
  show ?thesis
    using session_written_by_refresh_only
            [of example_env _ _ _ _ _ _ _ _ "example_params (Some ''getOrders'')"
                "Inr (Val (JObj [(''ok'', JBool True)]))", THEN conjunct2, THEN conjunct2,
             THEN conjunct2, THEN conjunct2, THEN conjunct2, THEN conjunct2]
          example_retry_run a
    by simp
qed

subsection \<open>Transfer: round trip\<close>





end
